theory Spec2Isabelle
  imports Main "HOL-Library.AList"
begin

section \<open>Strings and the platform functions the router relies on\<close>

text \<open>
  A JavaScript string is modelled by a \<^typ>\<open>string\<close>: the list of the bytes of its
  UTF-8 encoding, so that an ASCII character is one \<^typ>\<open>char\<close> and every operation
  below that looks for an ASCII character (\<open>;\<close>, \<open>=\<close>, \<open>.\<close>, \<open>%\<close>) finds it where
  JavaScript does. An unpaired surrogate has no UTF-8 encoding; it stands as the
  three bytes its code point would take, which no well-formed UTF-8 text contains. The value \<open>undefined\<close>, where the source can produce it in place of
  a string, is \<open>None\<close>. A thrown exception is a value of type \<open>error\<close>, returned as
  \<open>Inl\<close>.
\<close>

datatype error = TypeError | SyntaxError | URIError | Thrown string

subsection \<open>\<open>toLowerCase\<close>, \<open>trim\<close>, \<open>split\<close>, \<open>join\<close>\<close>

text \<open>\<open>toLowerCase\<close> on the ASCII letters; HTTP method names are ASCII tokens.\<close>

definition toLowerCase_char :: "char \<Rightarrow> char" where
  "toLowerCase_char c =
     (let n = (of_char c :: nat) in if 65 \<le> n \<and> n \<le> 90 then char_of (n + 32) else c)"

definition toLowerCase :: "string \<Rightarrow> string" where
  "toLowerCase s = map toLowerCase_char s"

text \<open>
  The characters \<open>String.prototype.trim\<close> removes: the ECMAScript white space and
  line terminator code points (TAB, LF, VT, FF, CR, SP, U+00A0, U+1680, U+2000 to
  U+200A, U+2028, U+2029, U+202F, U+205F, U+3000, U+FEFF), each as its UTF-8 bytes.
\<close>

definition whiteSpace :: "string list" where
  "whiteSpace =
     [[CHR 0x09], [CHR 0x0A], [CHR 0x0B], [CHR 0x0C], [CHR 0x0D], [CHR 0x20],
      [CHR 0xC2, CHR 0xA0], [CHR 0xE1, CHR 0x9A, CHR 0x80],
      [CHR 0xE2, CHR 0x80, CHR 0x80], [CHR 0xE2, CHR 0x80, CHR 0x81],
      [CHR 0xE2, CHR 0x80, CHR 0x82], [CHR 0xE2, CHR 0x80, CHR 0x83],
      [CHR 0xE2, CHR 0x80, CHR 0x84], [CHR 0xE2, CHR 0x80, CHR 0x85],
      [CHR 0xE2, CHR 0x80, CHR 0x86], [CHR 0xE2, CHR 0x80, CHR 0x87],
      [CHR 0xE2, CHR 0x80, CHR 0x88], [CHR 0xE2, CHR 0x80, CHR 0x89],
      [CHR 0xE2, CHR 0x80, CHR 0x8A],
      [CHR 0xE2, CHR 0x80, CHR 0xA8], [CHR 0xE2, CHR 0x80, CHR 0xA9],
      [CHR 0xE2, CHR 0x80, CHR 0xAF], [CHR 0xE2, CHR 0x81, CHR 0x9F],
      [CHR 0xE3, CHR 0x80, CHR 0x80], [CHR 0xEF, CHR 0xBB, CHR 0xBF]]"

definition leading_ws :: "string \<Rightarrow> nat" where
  "leading_ws s =
     (case find (\<lambda>w. take (length w) s = w) whiteSpace of
        Some w \<Rightarrow> length w
      | None \<Rightarrow> 0)"

definition trailing_ws :: "string \<Rightarrow> nat" where
  "trailing_ws s =
     (case find (\<lambda>w. length w \<le> length s \<and> drop (length s - length w) s = w) whiteSpace of
        Some w \<Rightarrow> length w
      | None \<Rightarrow> 0)"

lemma find_SomeD: "find P xs = Some x \<Longrightarrow> x \<in> set xs \<and> P x"
  by (induction xs) (auto split: if_splits)

lemma whiteSpace_nonempty: "w \<in> set whiteSpace \<Longrightarrow> w \<noteq> []"
  by (auto simp: whiteSpace_def)

lemma leading_ws_Nil: "leading_ws [] = 0"
  by (auto simp: leading_ws_def split: option.splits dest!: find_SomeD whiteSpace_nonempty)

lemma trailing_ws_Nil: "trailing_ws [] = 0"
  by (auto simp: trailing_ws_def split: option.splits dest!: find_SomeD whiteSpace_nonempty)

function trimStart :: "string \<Rightarrow> string" where
  "trimStart s = (if leading_ws s = 0 then s else trimStart (drop (leading_ws s) s))"
  by pat_completeness auto
termination
proof (relation "measure length")
  fix s assume "leading_ws s \<noteq> 0"
  then have "s \<noteq> []" using leading_ws_Nil by auto
  with \<open>leading_ws s \<noteq> 0\<close> show "(drop (leading_ws s) s, s) \<in> measure length" by simp
qed simp

function trimEnd :: "string \<Rightarrow> string" where
  "trimEnd s = (if trailing_ws s = 0 then s else trimEnd (take (length s - trailing_ws s) s))"
  by pat_completeness auto
termination
proof (relation "measure length")
  fix s assume "trailing_ws s \<noteq> 0"
  then have "s \<noteq> []" using trailing_ws_Nil by auto
  with \<open>trailing_ws s \<noteq> 0\<close> show "(take (length s - trailing_ws s) s, s) \<in> measure length" by simp
qed simp

declare trimStart.simps [simp del] trimEnd.simps [simp del]

definition trim :: "string \<Rightarrow> string" where
  "trim s = trimEnd (trimStart s)"

text \<open>\<open>String.prototype.split\<close> with a one-character separator and no limit: the
  pieces between the separators, one more than there are separators.\<close>

fun split :: "string \<Rightarrow> char \<Rightarrow> string list" where
  "split [] sep = [[]]"
| "split (c # cs) sep =
     (if c = sep then [] # split cs sep
      else (case split cs sep of
              x # xs \<Rightarrow> (c # x) # xs
            | [] \<Rightarrow> [[c]]))"

text \<open>\<open>Array.prototype.join\<close>.\<close>

fun join :: "string list \<Rightarrow> string \<Rightarrow> string" where
  "join [] sep = []"
| "join [x] sep = x"
| "join (x # y # ys) sep = x @ sep @ join (y # ys) sep"

text \<open>\<open>String.prototype.lastIndexOf\<close> for a one-character search string: the index of
  the last occurrence, or \<open>-1\<close>.\<close>

fun lastIndexOf :: "string \<Rightarrow> char \<Rightarrow> int" where
  "lastIndexOf [] c = -1"
| "lastIndexOf (x # xs) c =
     (let r = lastIndexOf xs c
      in if r \<noteq> -1 then r + 1 else if x = c then 0 else -1)"

text \<open>\<open>String.prototype.substr\<close> with a start index only (never negative here). Indices
  count bytes here and UTF-16 code units in JavaScript; the text after the index that
  \<open>lastIndexOf\<close> found is the same in both.\<close>

definition substr :: "string \<Rightarrow> int \<Rightarrow> string" where
  "substr s i = drop (nat i) s"

subsection \<open>\<open>encodeURIComponent\<close> and \<open>decodeURIComponent\<close>\<close>

definition hex_value :: "char \<Rightarrow> nat option" where
  "hex_value c =
     (let n = (of_char c :: nat)
      in if 48 \<le> n \<and> n \<le> 57 then Some (n - 48)
         else if 65 \<le> n \<and> n \<le> 70 then Some (n - 55)
         else if 97 \<le> n \<and> n \<le> 102 then Some (n - 87)
         else None)"

definition hex_digit :: "nat \<Rightarrow> char" where
  "hex_digit n = ''0123456789ABCDEF'' ! n"

text \<open>
  \<open>decodeURIComponent\<close> in two passes. \<open>unescape\<close> reads the escapes: \<open>Inl c\<close> is a
  character written as itself, \<open>Inr b\<close> the byte of an escape \<open>%XX\<close>; a \<open>%\<close> that is
  not followed by two hexadecimal digits is an error. \<open>utf8_octets\<close> then checks what
  ECMAScript's \<open>Decode\<close> checks: an escaped byte from \<open>0x80\<close> on must start a
  well-formed UTF-8 sequence of two to four bytes, all of them escaped (no overlong
  form, no surrogate, nothing above U+10FFFF). Every failure is a \<open>URIError\<close>.
\<close>

fun unescape :: "string \<Rightarrow> (char + nat) list option" where
  "unescape [] = Some []"
| "unescape (c # cs) =
     (if c \<noteq> CHR ''%'' then map_option (Cons (Inl c)) (unescape cs)
      else (case cs of
              h1 # h2 # rest \<Rightarrow>
                (case (hex_value h1, hex_value h2) of
                   (Some a, Some b) \<Rightarrow> map_option (Cons (Inr (16 * a + b))) (unescape rest)
                 | _ \<Rightarrow> None)
            | _ \<Rightarrow> None))"

definition utf8_length :: "nat \<Rightarrow> nat" where
  "utf8_length b =
     (if b < 0x80 then 1 else if b < 0xC0 then 0 else if b < 0xE0 then 2
      else if b < 0xF0 then 3 else if b < 0xF8 then 4 else 0)"

definition continuation :: "char + nat \<Rightarrow> bool" where
  "continuation t = (case t of Inl c \<Rightarrow> False | Inr b \<Rightarrow> 0x80 \<le> b \<and> b < 0xC0)"

definition octet :: "char + nat \<Rightarrow> nat" where
  "octet t = (case t of Inl c \<Rightarrow> of_char c | Inr b \<Rightarrow> b)"

definition utf8_valid :: "nat \<Rightarrow> nat list \<Rightarrow> bool" where
  "utf8_valid b bs =
     (case bs of
        [] \<Rightarrow> False
      | b1 # _ \<Rightarrow>
          0xC2 \<le> b \<and> b \<le> 0xF4
          \<and> (if b = 0xE0 then 0xA0 \<le> b1
               else if b = 0xED then b1 < 0xA0
               else if b = 0xF0 then 0x90 \<le> b1
               else if b = 0xF4 then b1 < 0x90
               else True))"

function utf8_octets :: "(char + nat) list \<Rightarrow> string option" where
  "utf8_octets [] = Some []"
| "utf8_octets (Inl c # ts) = map_option (Cons c) (utf8_octets ts)"
| "utf8_octets (Inr b # ts) =
     (if b < 0x80 then map_option (Cons (char_of b)) (utf8_octets ts)
      else
        (let n = utf8_length b; more = take (n - 1) ts
         in if 2 \<le> n \<and> length more = n - 1 \<and> list_all continuation more
               \<and> utf8_valid b (map octet more)
            then map_option (\<lambda>r. map char_of (b # map octet more) @ r)
                   (utf8_octets (drop (n - 1) ts))
            else None))"
  by pat_completeness auto
termination
  by (relation "measure length") auto

definition decodeURIComponent :: "string \<Rightarrow> error + string" where
  "decodeURIComponent s =
     (case unescape s of
        None \<Rightarrow> Inl URIError
      | Some ts \<Rightarrow>
          (case utf8_octets ts of
             None \<Rightarrow> Inl URIError
           | Some r \<Rightarrow> Inr r))"

text \<open>
  Well-formed UTF-8: the byte lists that are the encoding of a sequence of Unicode
  code points, that is, of a JavaScript string with no unpaired surrogate.
\<close>

function well_formed :: "string \<Rightarrow> bool" where
  "well_formed [] = True"
| "well_formed (c # cs) =
     (let b = (of_char c :: nat)
      in if b < 0x80 then well_formed cs
         else
           (let n = utf8_length b; more = take (n - 1) cs
            in 2 \<le> n \<and> length more = n - 1
               \<and> list_all (\<lambda>d. 0x80 \<le> (of_char d :: nat) \<and> (of_char d :: nat) < 0xC0) more
               \<and> utf8_valid b (map of_char more)
               \<and> well_formed (drop (n - 1) cs)))"
  by pat_completeness auto
termination
  by (relation "measure length") auto

text \<open>
  \<open>encodeURIComponent\<close>. The characters it leaves as they are: letters, digits and
  \<open>- _ . ! ~ * ' ( )\<close>. Every other byte of the UTF-8 encoding becomes \<open>%XX\<close>. On a
  string that holds an unpaired surrogate (one that is not \<open>well_formed\<close>) it throws
  a \<open>URIError\<close>.
\<close>

definition uriUnescaped :: "char \<Rightarrow> bool" where
  "uriUnescaped c =
     (let n = (of_char c :: nat)
      in (48 \<le> n \<and> n \<le> 57) \<or> (65 \<le> n \<and> n \<le> 90) \<or> (97 \<le> n \<and> n \<le> 122)
         \<or> c \<in> set ''-_.!~*'' \<or> c = CHR 0x27 \<or> c \<in> set ''()'')"

definition encode_char :: "char \<Rightarrow> string" where
  "encode_char c =
     (if uriUnescaped c then [c]
      else [CHR ''%'', hex_digit (of_char c div 16), hex_digit (of_char c mod 16)])"

definition encodeURIComponent :: "string \<Rightarrow> error + string" where
  "encodeURIComponent s =
     (if well_formed s then Inr (concat (map encode_char s)) else Inl URIError)"

section \<open>CookieJar\<close>

text \<open>
  A \<open>CookieJar\<close> is an object whose own properties are the cookies: here the list of
  its own properties in the order they were created, each with its value (a string,
  or \<open>undefined\<close> when the cookie had no \<open>=\<close>).
\<close>

type_synonym CookieJar = "(string \<times> string option) list"

text \<open>
  \<open>Object.assign(res, { [key]: val })\<close>: an assignment \<open>res[key] = val\<close>. An existing
  property keeps its place and takes the new value, a new one is added last. The
  key \<open>__proto__\<close> is the one exception: the assignment reaches the setter that
  \<open>Object.prototype\<close> has under that name, which ignores a value that is neither an
  object nor \<open>null\<close>, so no property is created.
\<close>

definition Object_assign :: "CookieJar \<Rightarrow> string \<Rightarrow> string option \<Rightarrow> CookieJar" where
  "Object_assign res key val =
     (if key = ''__proto__'' then res else AList.update key val res)"

text \<open>\<open>Array.prototype.map\<close> with a callback that can throw: the first exception ends it.\<close>

fun map_throwing :: "('a \<Rightarrow> error + 'b) \<Rightarrow> 'a list \<Rightarrow> error + 'b list" where
  "map_throwing f [] = Inr []"
| "map_throwing f (x # xs) =
     (case f x of
        Inl e \<Rightarrow> Inl e
      | Inr y \<Rightarrow> (case map_throwing f xs of Inl e \<Rightarrow> Inl e | Inr ys \<Rightarrow> Inr (y # ys)))"

text \<open>The destructuring \<open>const [key, val] = parts\<close>: the first two elements, \<open>undefined\<close>
  for a missing one (an \<open>undefined\<close> key names the property \<open>"undefined"\<close>).\<close>

definition destructure :: "string list \<Rightarrow> string \<times> string option" where
  "destructure parts =
     (case parts of
        [] \<Rightarrow> (''undefined'', None)
      | [key] \<Rightarrow> (key, None)
      | key # val # _ \<Rightarrow> (key, Some val))"

text \<open>The \<open>reduce\<close> of the constructor, over the segments of the header.\<close>

fun CookieJar_reduce :: "CookieJar \<Rightarrow> string list \<Rightarrow> error + CookieJar" where
  "CookieJar_reduce res [] = Inr res"
| "CookieJar_reduce res (c # cs) =
     (case map_throwing decodeURIComponent (split (trim c) (CHR ''='')) of
        Inl e \<Rightarrow> Inl e
      | Inr parts \<Rightarrow>
          (case destructure parts of
             (key, val) \<Rightarrow> CookieJar_reduce (Object_assign res key val) cs))"

definition CookieJar_new :: "string \<Rightarrow> error + CookieJar" where
  "CookieJar_new cookie = CookieJar_reduce [] (split cookie (CHR '';''))"

text \<open>
  The order in which \<open>for (const key in this)\<close> visits the own properties: the keys
  that are array indices (canonical decimal numbers below \<open>2^32 - 1\<close>) in ascending
  order, then the other keys in the order of their creation.
\<close>

definition is_digit :: "char \<Rightarrow> bool" where
  "is_digit c = (48 \<le> (of_char c :: nat) \<and> (of_char c :: nat) \<le> 57)"

definition digits_value :: "string \<Rightarrow> int" where
  "digits_value k = foldl (\<lambda>n c. 10 * n + (of_char c - 48)) 0 k"

definition is_array_index :: "string \<Rightarrow> bool" where
  "is_array_index k =
     (case k of
        [] \<Rightarrow> False
      | c # cs \<Rightarrow> list_all is_digit k \<and> (cs = [] \<or> c \<noteq> CHR ''0'')
                 \<and> digits_value k < 2 ^ 32 - 1)"

definition own_keys :: "CookieJar \<Rightarrow> string list" where
  "own_keys this =
     sort_key digits_value (filter is_array_index (map fst this))
     @ filter (\<lambda>k. \<not> is_array_index k) (map fst this)"

text \<open>\<open>this[key]\<close> for a string key: the own property, else \<open>undefined\<close>.\<close>

definition get_own :: "CookieJar \<Rightarrow> string \<Rightarrow> string option" where
  "get_own this key = (case map_of this key of Some v \<Rightarrow> v | None \<Rightarrow> None)"

text \<open>\<open>encodeURIComponent\<close> of a value that may be \<open>undefined\<close>.\<close>

definition encodeURIComponent_any :: "string option \<Rightarrow> error + string" where
  "encodeURIComponent_any v =
     encodeURIComponent (case v of Some s \<Rightarrow> s | None \<Rightarrow> ''undefined'')"

text \<open>The text \<open>key=value\<close> the loop pushes for one key, both sides encoded.\<close>

definition encoded_pair :: "CookieJar \<Rightarrow> string \<Rightarrow> error + string" where
  "encoded_pair this key =
     (case encodeURIComponent key of
        Inl e \<Rightarrow> Inl e
      | Inr k \<Rightarrow>
          (case encodeURIComponent_any (get_own this key) of
             Inl e \<Rightarrow> Inl e
           | Inr v \<Rightarrow> Inr (k @ ''='' @ v)))"

text \<open>
  The function assigned to \<open>CookieJar.prototype.toString\<close>, run with the jar as
  \<open>this\<close>. The loop calls \<open>this.hasOwnProperty(key)\<close> on every key it visits (the
  inherited, enumerable \<open>toString\<close> among them): a cookie named \<open>hasOwnProperty\<close> has
  replaced that method by a string, and the call throws.
\<close>

definition CookieJar_toString :: "CookieJar \<Rightarrow> error + string" where
  "CookieJar_toString this =
     (if ''hasOwnProperty'' \<in> set (map fst this) then Inl TypeError
      else (case map_throwing (encoded_pair this) (own_keys this) of
              Inl e \<Rightarrow> Inl e
            | Inr pairs \<Rightarrow> Inr (join pairs '';'')))"

text \<open>
  The method call \<open>jar.toString()\<close>. The property \<open>toString\<close> is looked up on the jar
  before its prototype: a cookie named \<open>toString\<close> is an own property whose value is
  a string, and calling it throws; otherwise the function above runs.
\<close>

definition CookieJar_call_toString :: "CookieJar \<Rightarrow> error + string" where
  "CookieJar_call_toString jar =
     (if ''toString'' \<in> set (map fst jar) then Inl TypeError else CookieJar_toString jar)"

section \<open>Content-type inference\<close>

datatype ContentType =
    application_json | application_javascript | application_octet_stream
  | text_plain | text_css | text_html

definition contentTypeMap :: "(string \<times> ContentType) list" where
  "contentTypeMap =
     [(''json'', application_json),
      (''js'', application_javascript),
      (''html'', text_html),
      (''css'', text_css),
      (''txt'', text_html)]"

text \<open>\<open>hasOwnProperty\<close> on an object literal: only the keys written in the literal are
  own properties; what \<open>Object.prototype\<close> provides (\<open>toString\<close>, \<open>constructor\<close>, ...)
  is inherited and so not found.\<close>

definition hasOwnProperty :: "(string \<times> 'a) list \<Rightarrow> string \<Rightarrow> bool" where
  "hasOwnProperty obj k = (k \<in> set (map fst obj))"

definition inferContentType :: "string \<Rightarrow> ContentType" where
  "inferContentType fileName =
     (let dotIndex = lastIndexOf fileName (CHR ''.'')
      in if dotIndex \<noteq> -1 then
           (let suffix = substr fileName (dotIndex + 1)
            in if hasOwnProperty contentTypeMap suffix
               then the (map_of contentTypeMap suffix)
               else application_octet_stream)
         else application_octet_stream)"

section \<open>Regular expressions\<close>

text \<open>
  \<open>RegExp\<close> is the platform's; the router builds one from a pattern string and
  calls \<open>exec\<close> on it. The model covers regular expressions without flags, over ASCII
  subjects, made of: literal characters, \<open>.\<close>, character classes (\<open>[a-z]\<close>, \<open>[^/]\<close>,
  the escapes \<open>\d\<close>, \<open>\D\<close>, \<open>\w\<close>, \<open>\W\<close>, control and punctuation escapes),
  capturing groups and \<open>(?:\<close>...\<open>)\<close> groups, alternation, the quantifiers \<open>*\<close>, \<open>+\<close>, \<open>?\<close>
  and their lazy forms, and the assertions \<open>^\<close> and \<open>$\<close>.

  Matching is ECMAScript's backtracking: \<open>run r s (i, caps)\<close> is the list, in the
  order backtracking tries them, of the states in which \<open>r\<close> can end when started at
  index \<open>i\<close> of \<open>s\<close> with the captures \<open>caps\<close>. A quantified term is ECMAScript's
  \<open>RepeatMatcher\<close>: it clears the captures of the groups inside it at the start of
  each iteration, and once no more iterations are required, an iteration that
  consumes nothing fails (\<open>repeat\<close>, with the number of iterations still allowed:
  \<open>length s\<close> are always enough for \<open>*\<close> and \<open>+\<close>, and \<open>?\<close> allows one). The one
  iteration \<open>+\<close> requires may consume nothing.
\<close>

datatype regex =
    Empty
  | Char char
  | Dot
  | Class bool "(nat \<times> nat) list"
  | Seq regex regex
  | Alt regex regex
  | Star bool regex
  | Plus bool regex
  | Opt bool regex
  | Group nat regex
  | Start
  | End

type_synonym captures = "nat \<Rightarrow> string option"
type_synonym mstate = "nat \<times> captures"

fun groups_in :: "regex \<Rightarrow> nat list" where
  "groups_in (Seq a b) = groups_in a @ groups_in b"
| "groups_in (Alt a b) = groups_in a @ groups_in b"
| "groups_in (Star g r) = groups_in r"
| "groups_in (Plus g r) = groups_in r"
| "groups_in (Opt g r) = groups_in r"
| "groups_in (Group n r) = n # groups_in r"
| "groups_in r = []"

definition in_class :: "bool \<Rightarrow> (nat \<times> nat) list \<Rightarrow> char \<Rightarrow> bool" where
  "in_class negated ranges c =
     (list_ex (\<lambda>(lo, hi). lo \<le> of_char c \<and> (of_char c :: nat) \<le> hi) ranges \<noteq> negated)"

definition clear :: "nat list \<Rightarrow> mstate \<Rightarrow> mstate" where
  "clear ns st = (fst st, \<lambda>n. if n \<in> set ns then None else snd st n)"

fun repeat :: "bool \<Rightarrow> (mstate \<Rightarrow> mstate list) \<Rightarrow> nat \<Rightarrow> mstate \<Rightarrow> mstate list" where
  "repeat greedy f 0 st = [st]"
| "repeat greedy f (Suc n) st =
     (let more = concat (map (repeat greedy f n) (filter (\<lambda>st'. fst st' \<noteq> fst st) (f st)))
      in if greedy then more @ [st] else st # more)"

fun run :: "regex \<Rightarrow> string \<Rightarrow> mstate \<Rightarrow> mstate list" where
  "run Empty s st = [st]"
| "run (Char c) s st =
     (if fst st < length s \<and> s ! fst st = c then [(Suc (fst st), snd st)] else [])"
| "run Dot s st =
     (if fst st < length s \<and> s ! fst st \<notin> {CHR 0x0A, CHR 0x0D} then [(Suc (fst st), snd st)] else [])"
| "run (Class negated ranges) s st =
     (if fst st < length s \<and> in_class negated ranges (s ! fst st)
      then [(Suc (fst st), snd st)] else [])"
| "run (Seq a b) s st = concat (map (run b s) (run a s st))"
| "run (Alt a b) s st = run a s st @ run b s st"
| "run (Star greedy r) s st =
     repeat greedy (\<lambda>st'. run r s (clear (groups_in r) st')) (length s) st"
| "run (Plus greedy r) s st =
     concat (map (repeat greedy (\<lambda>st'. run r s (clear (groups_in r) st')) (length s))
               (run r s (clear (groups_in r) st)))"
| "run (Opt greedy r) s st =
     repeat greedy (\<lambda>st'. run r s (clear (groups_in r) st')) (Suc 0) st"
| "run (Group n r) s st =
     map (\<lambda>st'. (fst st', (snd st')(n := Some (take (fst st' - fst st) (drop (fst st) s)))))
       (run r s st)"
| "run Start s st = (if fst st = 0 then [st] else [])"
| "run End s st = (if fst st = length s then [st] else [])"

text \<open>A compiled expression: its syntax tree and the number of its capturing groups.\<close>

record RegExp =
  source :: regex
  groups :: nat

text \<open>
  \<open>RegExp.prototype.exec\<close> without the \<open>g\<close> and \<open>y\<close> flags: the search starts at index 0
  and takes the first index at which the expression matches; the result holds the
  matched text, then the text of every capturing group (\<open>None\<close> for a group that took
  no part in the match). \<open>None\<close> is JavaScript's \<open>null\<close>.
\<close>

definition exec :: "RegExp \<Rightarrow> string \<Rightarrow> string option list option" where
  "exec re s =
     (case List.find (\<lambda>i. run (source re) s (i, \<lambda>n. None) \<noteq> []) [0..<Suc (length s)] of
        None \<Rightarrow> None
      | Some i \<Rightarrow>
          (case run (source re) s (i, \<lambda>n. None) of
             [] \<Rightarrow> None
           | (j, caps) # _ \<Rightarrow>
               Some (Some (take (j - i) (drop i s)) # map caps [1..<Suc (groups re)])))"

text \<open>The parser of pattern strings.\<close>

datatype quantifier = QStar | QPlus | QOpt

fun quantified :: "bool \<Rightarrow> quantifier \<Rightarrow> regex \<Rightarrow> regex" where
  "quantified greedy QStar atom = Star greedy atom"
| "quantified greedy QPlus atom = Plus greedy atom"
| "quantified greedy QOpt atom = Opt greedy atom"

text \<open>
  What the last character read left behind: nothing a quantifier could apply to
  (the start of an alternative, or an assertion), a term, or a term that has just
  been given a quantifier, which a following \<open>?\<close> makes lazy.
\<close>

datatype last_term = NoTerm | Term | Quantified quantifier regex

text \<open>
  An open group: its number if it captures, its finished alternatives and the terms
  of the alternative being read, the most recent first. The modes of the reader:
  between terms, after a backslash, after \<open>(\<close>, after \<open>(?\<close>, inside a character
  class (at its first character or not, negated or not, the ranges read, and a
  character that may still begin a range), and after a backslash inside a class.
\<close>

record frame =
  number :: "nat option"
  alternatives :: "regex list"
  terms :: "regex list"

datatype class_pending = PNone | PChar nat | PDash nat

datatype mode =
    Normal
  | Escaped
  | Paren
  | ParenQ
  | InClass bool bool "(nat \<times> nat) list" class_pending
  | ClassEscaped bool "(nat \<times> nat) list" class_pending

datatype pstate = Running mode "frame list" nat last_term | Rejected | Outside

definition sequence :: "regex list \<Rightarrow> regex" where
  "sequence ts = foldl (\<lambda>acc t. Seq t acc) Empty ts"

definition close_frame :: "frame \<Rightarrow> regex" where
  "close_frame f =
     (let body = foldl (\<lambda>acc a. Alt a acc) (sequence (terms f)) (alternatives f)
      in case number f of Some n \<Rightarrow> Group n body | None \<Rightarrow> body)"

definition push_term :: "regex \<Rightarrow> last_term \<Rightarrow> frame list \<Rightarrow> nat \<Rightarrow> pstate" where
  "push_term t l fs n =
     (case fs of
        [] \<Rightarrow> Rejected
      | f # rest \<Rightarrow> Running Normal (f\<lparr>terms := t # terms f\<rparr> # rest) n l)"

definition replace_term :: "regex \<Rightarrow> last_term \<Rightarrow> frame list \<Rightarrow> nat \<Rightarrow> pstate" where
  "replace_term t l fs n =
     (case fs of
        [] \<Rightarrow> Rejected
      | f # rest \<Rightarrow> Running Normal (f\<lparr>terms := t # tl (terms f)\<rparr> # rest) n l)"

definition digit_ranges :: "(nat \<times> nat) list" where
  "digit_ranges = [(48, 57)]"

definition word_ranges :: "(nat \<times> nat) list" where
  "word_ranges = [(97, 122), (65, 90), (48, 57), (95, 95)]"

definition alphanumeric :: "char \<Rightarrow> bool" where
  "alphanumeric c =
     (let n = (of_char c :: nat)
      in (48 \<le> n \<and> n \<le> 57) \<or> (65 \<le> n \<and> n \<le> 90) \<or> (97 \<le> n \<and> n \<le> 122) \<or> n = 95)"

definition control_escape :: "char \<Rightarrow> nat option" where
  "control_escape c =
     (if c = CHR ''t'' then Some 9 else if c = CHR ''n'' then Some 10
      else if c = CHR ''v'' then Some 11 else if c = CHR ''f'' then Some 12
      else if c = CHR ''r'' then Some 13 else None)"

definition flush :: "class_pending \<Rightarrow> (nat \<times> nat) list" where
  "flush p =
     (case p of
        PNone \<Rightarrow> []
      | PChar a \<Rightarrow> [(a, a)]
      | PDash a \<Rightarrow> [(a, a), (45, 45)])"

definition class_char :: "bool \<Rightarrow> (nat \<times> nat) list \<Rightarrow> class_pending \<Rightarrow> nat
    \<Rightarrow> frame list \<Rightarrow> nat \<Rightarrow> last_term \<Rightarrow> pstate" where
  "class_char negated ranges p d fs n l =
     (case p of
        PNone \<Rightarrow> Running (InClass False negated ranges (PChar d)) fs n l
      | PChar a \<Rightarrow> Running (InClass False negated (ranges @ [(a, a)]) (PChar d)) fs n l
      | PDash a \<Rightarrow>
          if a \<le> d then Running (InClass False negated (ranges @ [(a, d)]) PNone) fs n l
          else Rejected)"

definition normal_step :: "frame list \<Rightarrow> nat \<Rightarrow> last_term \<Rightarrow> char \<Rightarrow> pstate" where
  "normal_step fs n l c =
     (if 128 \<le> (of_char c :: nat) then Outside
      else if c = CHR 0x5C then Running Escaped fs n l
      else if c = CHR ''('' then Running Paren fs n l
      else if c = CHR '')'' then
        (case fs of
           f # g # rest \<Rightarrow> push_term (close_frame f) Term (g # rest) n
         | _ \<Rightarrow> Rejected)
      else if c = CHR ''|'' then
        (case fs of
           [] \<Rightarrow> Rejected
         | f # rest \<Rightarrow>
             Running Normal
               (f\<lparr>alternatives := sequence (terms f) # alternatives f, terms := []\<rparr> # rest)
               n NoTerm)
      else if c = CHR ''*'' \<or> c = CHR ''+'' \<or> c = CHR ''?'' then
        (let q = (if c = CHR ''*'' then QStar else if c = CHR ''+'' then QPlus else QOpt)
         in case l of
              NoTerm \<Rightarrow> Rejected
            | Term \<Rightarrow>
                (case fs of
                   [] \<Rightarrow> Rejected
                 | f # rest \<Rightarrow>
                     (case terms f of
                        [] \<Rightarrow> Rejected
                      | atom # _ \<Rightarrow>
                          replace_term (quantified True q atom) (Quantified q atom) fs n))
            | Quantified q' atom \<Rightarrow>
                if c = CHR ''?'' then replace_term (quantified False q' atom) NoTerm fs n
                else Rejected)
      else if c = CHR ''['' then Running (InClass True False [] PNone) fs n l
      else if c = CHR ''^'' then push_term Start NoTerm fs n
      else if c = CHR ''$'' then push_term End NoTerm fs n
      else if c = CHR ''.'' then push_term Dot Term fs n
      else if c = CHR ''{'' \<or> c = CHR ''}'' then Outside
      else push_term (Char c) Term fs n)"

fun step :: "pstate \<Rightarrow> char \<Rightarrow> pstate" where
  "step Rejected c = Rejected"
| "step Outside c = Outside"
| "step (Running Normal fs n l) c = normal_step fs n l c"
| "step (Running Escaped fs n l) c =
     (if 128 \<le> (of_char c :: nat) then Outside
      else if c = CHR ''d'' then push_term (Class False digit_ranges) Term fs n
      else if c = CHR ''D'' then push_term (Class True digit_ranges) Term fs n
      else if c = CHR ''w'' then push_term (Class False word_ranges) Term fs n
      else if c = CHR ''W'' then push_term (Class True word_ranges) Term fs n
      else (case control_escape c of
              Some k \<Rightarrow> push_term (Char (char_of k)) Term fs n
            | None \<Rightarrow> if alphanumeric c then Outside else push_term (Char c) Term fs n))"
| "step (Running Paren fs n l) c =
     (if c = CHR ''?'' then Running ParenQ fs n l
      else normal_step (\<lparr>number = Some (Suc n), alternatives = [], terms = []\<rparr> # fs) (Suc n) NoTerm c)"
| "step (Running ParenQ fs n l) c =
     (if c = CHR '':'' then
        Running Normal (\<lparr>number = None, alternatives = [], terms = []\<rparr> # fs) n NoTerm
      else Outside)"
| "step (Running (InClass first negated ranges p) fs n l) c =
     (if 128 \<le> (of_char c :: nat) then Outside
      else if c = CHR ''^'' \<and> first then Running (InClass False True ranges p) fs n l
      else if c = CHR '']'' then push_term (Class negated (ranges @ flush p)) Term fs n
      else if c = CHR 0x5C then Running (ClassEscaped negated ranges p) fs n l
      else if c = CHR ''-'' then
        (case p of
           PChar a \<Rightarrow> Running (InClass False negated ranges (PDash a)) fs n l
         | _ \<Rightarrow> class_char negated ranges p 45 fs n l)
      else class_char negated ranges p (of_char c) fs n l)"
| "step (Running (ClassEscaped negated ranges p) fs n l) c =
     (if 128 \<le> (of_char c :: nat) then Outside
      else if c = CHR ''d'' then
        Running (InClass False negated (ranges @ flush p @ digit_ranges) PNone) fs n l
      else if c = CHR ''w'' then
        Running (InClass False negated (ranges @ flush p @ word_ranges) PNone) fs n l
      else if c = CHR ''b'' then class_char negated ranges p 8 fs n l
      else (case control_escape c of
              Some k \<Rightarrow> class_char negated ranges p k fs n l
            | None \<Rightarrow>
                if alphanumeric c then Outside
                else class_char negated ranges p (of_char c) fs n l))"

text \<open>
  \<open>new RegExp(pattern)\<close>. The pattern is read one character at a time; the state holds
  a stack of the groups that are open, each with its finished alternatives and the
  terms of its current alternative, and the number of capturing groups seen.
  \<open>Throws\<close> is the \<open>SyntaxError\<close> of an ill-formed pattern; \<open>Unmodelled\<close> is a pattern
  that uses syntax outside the fragment above.
\<close>

datatype 'a compiled = Compiled 'a | Throws error | Unmodelled

definition RegExp_new :: "string \<Rightarrow> RegExp compiled" where
  "RegExp_new pattern =
     (case foldl step (Running Normal [\<lparr>number = None, alternatives = [], terms = []\<rparr>] 0 NoTerm)
             pattern of
        Rejected \<Rightarrow> Throws SyntaxError
      | Outside \<Rightarrow> Unmodelled
      | Running Normal [f] n l \<Rightarrow> Compiled \<lparr>source = close_frame f, groups = n\<rparr>
      | Running m fs n l \<Rightarrow> Throws SyntaxError)"


section \<open>Route\<close>

record Route =
  "method" :: string
  pattern :: RegExp
  handler :: string

definition Route_new :: "string \<Rightarrow> RegExp \<Rightarrow> string \<Rightarrow> Route" where
  "Route_new m p h = \<lparr>method = toLowerCase m, pattern = p, handler = h\<rparr>"

section \<open>Requests\<close>

text \<open>
  JSON values as the platform's parser returns them; a number and a string are kept
  as they are written in the text (nothing in the router reads inside them).
\<close>

datatype json =
    JNull
  | JBool bool
  | JNumber string
  | JString string
  | JArray "json list"
  | JObject "(string \<times> json) list"

text \<open>
  The transport request. Its URL arrives parsed (\<open>new URL(request.url)\<close> cannot fail
  on the URL of a \<open>Request\<close>), \<open>headers\<close> is \<open>Headers.get\<close> on lower-case names, and
  \<open>json\<close> and \<open>text\<close> are what awaiting \<open>request.json()\<close> and \<open>request.text()\<close> gives: a
  value, or the exception the promise is rejected with. (\<open>formData\<close> is passed through
  in the same way and is not used by the router.)
\<close>

record URL =
  pathname :: string
  searchParams :: "(string \<times> string) list"

record Request =
  "method" :: string
  url :: URL
  headers :: "string \<rightharpoonup> string"
  json :: "error + json"
  "text" :: "error + string"

text \<open>\<open>HTTPRequest\<close> wraps the request and adds the query parameters and the cookies.\<close>

record HTTPRequest = Request +
  query :: "(string \<times> string) list"
  cookie :: CookieJar

definition URLSearchParams_get :: "(string \<times> string) list \<Rightarrow> string \<Rightarrow> string option" where
  "URLSearchParams_get params name = map_of params name"

text \<open>The constructor throws what the \<open>CookieJar\<close> constructor throws.\<close>

definition HTTPRequest_new :: "Request \<Rightarrow> error + HTTPRequest" where
  "HTTPRequest_new request =
     (case CookieJar_new (case headers request ''cookie'' of None \<Rightarrow> '''' | Some c \<Rightarrow> c) of
        Inl e \<Rightarrow> Inl e
      | Inr jar \<Rightarrow>
          Inr (Request.extend request \<lparr>query = searchParams (url request), cookie = jar\<rparr>))"

definition Route_match :: "Route \<Rightarrow> HTTPRequest \<Rightarrow> string option list option" where
  "Route_match route request =
     (if toLowerCase (method request) \<noteq> Route.method route then None
      else exec (pattern route) (pathname (url request)))"

section \<open>\<open>JSON.parse\<close>\<close>

text \<open>
  The grammar of JSON texts (ECMA-404), in two passes: the text is cut into tokens,
  and the tokens are read with a stack of the arrays and objects that are open. A
  text that is not JSON is a \<open>SyntaxError\<close>.
\<close>

datatype token =
    TLBrace | TRBrace | TLBracket | TRBracket | TColon | TComma
  | TString string | TNumber string | TTrue | TFalse | TNull

definition hex_char :: "char \<Rightarrow> bool" where
  "hex_char c = (hex_value c \<noteq> None)"

text \<open>The characters of a string up to its closing quote, and the text after the quote.\<close>

fun string_body :: "string \<Rightarrow> (string \<times> string) option" where
  "string_body [] = None"
| "string_body (c # cs) =
     (if c = CHR 0x22 then Some ([], cs)
      else if (of_char c :: nat) < 0x20 then None
      else if c = CHR 0x5C then
        (case cs of
           [] \<Rightarrow> None
         | e # rest \<Rightarrow>
             if e \<in> {CHR 0x22, CHR 0x5C, CHR ''/'', CHR ''b'', CHR ''f'', CHR ''n'', CHR ''r'', CHR ''t''}
             then map_option (\<lambda>(raw, r). (c # e # raw, r)) (string_body rest)
             else if e = CHR ''u'' then
               (case rest of
                  h1 # h2 # h3 # h4 # rest' \<Rightarrow>
                    if hex_char h1 \<and> hex_char h2 \<and> hex_char h3 \<and> hex_char h4
                    then map_option (\<lambda>(raw, r). (c # e # h1 # h2 # h3 # h4 # raw, r))
                           (string_body rest')
                    else None
                | _ \<Rightarrow> None)
             else None)
      else map_option (\<lambda>(raw, r). (c # raw, r)) (string_body cs))"

definition number_char :: "char \<Rightarrow> bool" where
  "number_char c = (is_digit c \<or> c \<in> {CHR ''-'', CHR ''+'', CHR ''.'', CHR ''e'', CHR ''E''})"

definition valid_exponent :: "string \<Rightarrow> bool" where
  "valid_exponent s =
     (case s of
        [] \<Rightarrow> True
      | e # x \<Rightarrow>
          (e = CHR ''e'' \<or> e = CHR ''E'')
          \<and> (let ds = (case x of
                          [] \<Rightarrow> []
                        | sign # y \<Rightarrow> if sign = CHR ''+'' \<or> sign = CHR ''-'' then y else x)
             in ds \<noteq> [] \<and> list_all is_digit ds))"

definition valid_fraction :: "string \<Rightarrow> bool" where
  "valid_fraction s =
     (case s of
        [] \<Rightarrow> True
      | c # f \<Rightarrow>
          if c = CHR ''.'' then takeWhile is_digit f \<noteq> [] \<and> valid_exponent (dropWhile is_digit f)
          else valid_exponent s)"

definition valid_number :: "string \<Rightarrow> bool" where
  "valid_number s =
     (case (case s of [] \<Rightarrow> [] | c # r \<Rightarrow> if c = CHR ''-'' then r else s) of
        [] \<Rightarrow> False
      | d # r \<Rightarrow>
          if d = CHR ''0'' then valid_fraction r
          else is_digit d \<and> valid_fraction (dropWhile is_digit r))"

lemma string_body_shorter: "string_body s = Some (raw, rest) \<Longrightarrow> length rest < length s"
proof (induction s arbitrary: raw rest rule: string_body.induct)
  case 1
  then show ?case by simp
next
  case (2 c cs)
  then show ?case
    by (fastforce split: if_splits list.splits option.splits prod.splits)
qed

function tokens :: "string \<Rightarrow> token list option" where
  "tokens [] = Some []"
| "tokens (c # cs) =
     (if c \<in> {CHR 0x20, CHR 0x09, CHR 0x0A, CHR 0x0D} then tokens cs
      else if c = CHR ''{'' then map_option (Cons TLBrace) (tokens cs)
      else if c = CHR ''}'' then map_option (Cons TRBrace) (tokens cs)
      else if c = CHR ''['' then map_option (Cons TLBracket) (tokens cs)
      else if c = CHR '']'' then map_option (Cons TRBracket) (tokens cs)
      else if c = CHR '':'' then map_option (Cons TColon) (tokens cs)
      else if c = CHR '','' then map_option (Cons TComma) (tokens cs)
      else if c = CHR 0x22 then
        (case string_body cs of
           None \<Rightarrow> None
         | Some (raw, rest) \<Rightarrow> map_option (Cons (TString raw)) (tokens rest))
      else if number_char c then
        (if valid_number (takeWhile number_char (c # cs))
         then map_option (Cons (TNumber (takeWhile number_char (c # cs))))
                (tokens (dropWhile number_char cs))
         else None)
      else if take 4 (c # cs) = ''true'' then map_option (Cons TTrue) (tokens (drop 3 cs))
      else if take 5 (c # cs) = ''false'' then map_option (Cons TFalse) (tokens (drop 4 cs))
      else if take 4 (c # cs) = ''null'' then map_option (Cons TNull) (tokens (drop 3 cs))
      else None)"
  by pat_completeness auto
termination
proof (relation "measure length")
  fix c cs x2 raw rest
  assume "string_body cs = Some x2" "(raw, rest) = x2"
  then show "(rest, c # cs) \<in> measure length"
    using string_body_shorter [of cs raw rest] by simp
next
  fix c :: char and cs :: string
  show "(dropWhile number_char cs, c # cs) \<in> measure length"
    using length_dropWhile_le [of number_char cs] by simp
qed simp_all

datatype jframe =
    FArray "json list"
  | FObject "(string \<times> json) list"
  | FMember "(string \<times> json) list" string

datatype expectation =
    EValue | EValueOrEnd | EKeyOrEnd | EKey | EColon string | ENext | EDone json | EFail

type_synonym jstate = "jframe list \<times> expectation"

text \<open>A value is complete: it is the whole text, or goes into the innermost open array
  or under the pending key of the innermost open object.\<close>

fun complete_value :: "json \<Rightarrow> jframe list \<Rightarrow> jstate" where
  "complete_value v [] = ([], EDone v)"
| "complete_value v (FArray es # stack) = (FArray (es @ [v]) # stack, ENext)"
| "complete_value v (FMember ms k # stack) = (FObject (ms @ [(k, v)]) # stack, ENext)"
| "complete_value v (FObject ms # stack) = ([], EFail)"

definition begin_value :: "jframe list \<Rightarrow> token \<Rightarrow> jstate" where
  "begin_value stack t =
     (case t of
        TLBracket \<Rightarrow> (FArray [] # stack, EValueOrEnd)
      | TLBrace \<Rightarrow> (FObject [] # stack, EKeyOrEnd)
      | TString s \<Rightarrow> complete_value (JString s) stack
      | TNumber s \<Rightarrow> complete_value (JNumber s) stack
      | TTrue \<Rightarrow> complete_value (JBool True) stack
      | TFalse \<Rightarrow> complete_value (JBool False) stack
      | TNull \<Rightarrow> complete_value JNull stack
      | _ \<Rightarrow> ([], EFail))"

definition end_array :: "jframe list \<Rightarrow> jstate" where
  "end_array stack =
     (case stack of FArray es # rest \<Rightarrow> complete_value (JArray es) rest | _ \<Rightarrow> ([], EFail))"

definition end_object :: "jframe list \<Rightarrow> jstate" where
  "end_object stack =
     (case stack of FObject ms # rest \<Rightarrow> complete_value (JObject ms) rest | _ \<Rightarrow> ([], EFail))"

fun json_step :: "jstate \<Rightarrow> token \<Rightarrow> jstate" where
  "json_step (stack, EValue) t = begin_value stack t"
| "json_step (stack, EValueOrEnd) t =
     (if t = TRBracket then end_array stack else begin_value stack t)"
| "json_step (stack, EKeyOrEnd) t =
     (case t of
        TString k \<Rightarrow> (stack, EColon k)
      | TRBrace \<Rightarrow> end_object stack
      | _ \<Rightarrow> ([], EFail))"
| "json_step (stack, EKey) t =
     (case t of TString k \<Rightarrow> (stack, EColon k) | _ \<Rightarrow> ([], EFail))"
| "json_step (stack, EColon k) t =
     (case (t, stack) of
        (TColon, FObject ms # rest) \<Rightarrow> (FMember ms k # rest, EValue)
      | _ \<Rightarrow> ([], EFail))"
| "json_step (stack, ENext) t =
     (case (t, stack) of
        (TComma, FArray es # rest) \<Rightarrow> (stack, EValue)
      | (TComma, FObject ms # rest) \<Rightarrow> (stack, EKey)
      | (TRBracket, _) \<Rightarrow> end_array stack
      | (TRBrace, _) \<Rightarrow> end_object stack
      | _ \<Rightarrow> ([], EFail))"
| "json_step (stack, EDone v) t = ([], EFail)"
| "json_step (stack, EFail) t = ([], EFail)"

definition JSON_parse :: "string \<Rightarrow> error + json" where
  "JSON_parse s =
     (case tokens s of
        None \<Rightarrow> Inl SyntaxError
      | Some ts \<Rightarrow>
          (case foldl json_step ([], EValue) ts of
             (_, EDone v) \<Rightarrow> Inr v
           | _ \<Rightarrow> Inl SyntaxError))"

section \<open>Route registration\<close>

text \<open>
  \<open>Application.method(name)(pattern)(target, property)\<close>: the registry of the target
  (\<open>None\<close> while the target has no registry of its own) gets one more route, whose
  expression is compiled from the text \<open>"^" + pattern + "$"\<close>.
\<close>

definition Application_method ::
    "string \<Rightarrow> string \<Rightarrow> string \<Rightarrow> Route list option \<Rightarrow> Route list compiled" where
  "Application_method name pat property registry =
     (case RegExp_new (''^'' @ pat @ ''$'') of
        Throws e \<Rightarrow> Throws e
      | Unmodelled \<Rightarrow> Unmodelled
      | Compiled re \<Rightarrow>
          Compiled ((case registry of None \<Rightarrow> [] | Some routes \<Rightarrow> routes)
                    @ [Route_new name re property]))"

definition Application_get :: "string \<Rightarrow> string \<Rightarrow> Route list option \<Rightarrow> Route list compiled" where
  "Application_get = Application_method ''get''"

definition Application_post :: "string \<Rightarrow> string \<Rightarrow> Route list option \<Rightarrow> Route list compiled" where
  "Application_post = Application_method ''post''"

definition Application_put :: "string \<Rightarrow> string \<Rightarrow> Route list option \<Rightarrow> Route list compiled" where
  "Application_put = Application_method ''put''"

definition Application_delete :: "string \<Rightarrow> string \<Rightarrow> Route list option \<Rightarrow> Route list compiled" where
  "Application_delete = Application_method ''delete''"

definition Application_options :: "string \<Rightarrow> string \<Rightarrow> Route list option \<Rightarrow> Route list compiled" where
  "Application_options = Application_method ''options''"

section \<open>Responses\<close>

typedecl ReadableStream

datatype header_value =
    HUndefined
  | HString string
  | HContentType ContentType
  | HCookieJar CookieJar

type_synonym HTTPHeaders = "(string \<times> header_value) list"

text \<open>
  The response descriptor a handler returns. A key of the object is a field that is
  not \<open>None\<close>: \<open>"json" in responseObj\<close> is \<open>json responseObj \<noteq> None\<close>. The payload
  of \<open>json\<close> is any JavaScript value (\<open>'a\<close>).
\<close>

record 'a HTTPResponse =
  status :: "int option"
  headers :: "HTTPHeaders option"
  json :: "'a option"
  "text" :: "string option"
  html :: "string option"
  stream :: "ReadableStream option"

text \<open>
  The transport response, as the record of what \<open>new Response(body, {status, headers})\<close>
  is given; the checks the platform makes on the status code and the header names
  are outside the model. \<open>BodyUndefined\<close> is the body \<open>undefined\<close>, which is what
  \<open>JSON.stringify\<close> returns for a value with no JSON form.
\<close>

datatype Body = BodyText string | BodyStream ReadableStream | BodyUndefined

record Response =
  body :: Body
  status :: int
  headers :: "string \<rightharpoonup> string"

definition ContentType_toString :: "ContentType \<Rightarrow> string" where
  "ContentType_toString t =
     (case t of
        application_json \<Rightarrow> ''application/json''
      | application_javascript \<Rightarrow> ''application/javascript''
      | application_octet_stream \<Rightarrow> ''application/octet-stream''
      | text_plain \<Rightarrow> ''text/plain''
      | text_css \<Rightarrow> ''text/css''
      | text_html \<Rightarrow> ''text/html'')"

text \<open>
  \<open>headers[key]!.toString()\<close>; on a jar it is the method call \<open>jar.toString()\<close>.
\<close>

definition header_toString :: "header_value \<Rightarrow> error + string" where
  "header_toString v =
     (case v of
        HUndefined \<Rightarrow> Inl TypeError
      | HString s \<Rightarrow> Inr s
      | HContentType t \<Rightarrow> Inr (ContentType_toString t)
      | HCookieJar jar \<Rightarrow> CookieJar_call_toString jar)"

definition encode_header :: "string \<times> header_value \<Rightarrow> error + string \<times> string" where
  "encode_header kv =
     (case header_toString (snd kv) of Inl e \<Rightarrow> Inl e | Inr s \<Rightarrow> Inr (fst kv, s))"

text \<open>
  \<open>Application.encodeResponse\<close>; \<open>stringify\<close> is \<open>JSON.stringify\<close>, which returns a
  string or \<open>undefined\<close>, or throws. The assignment \<open>headers["content-type"] = ...\<close>
  comes after the descriptor's own headers have been taken, and replaces an entry
  the descriptor had under that name. \<open>encodedHeaders\<close> is a plain object, so that
  an assignment to its key \<open>__proto__\<close> stores nothing. (The loop visits the headers
  in the order \<open>for ... in\<close> gives them; the order decides nothing here.)
\<close>

definition encodeResponse ::
    "('a \<Rightarrow> error + string option) \<Rightarrow> 'a HTTPResponse \<Rightarrow> error + Response" where
  "encodeResponse stringify responseObj =
     (let headers0 = (case HTTPResponse.headers responseObj of Some h \<Rightarrow> h | None \<Rightarrow> []);
          status0 = (case HTTPResponse.status responseObj of Some s \<Rightarrow> s | None \<Rightarrow> 200);
          chosen =
            (case HTTPResponse.json responseObj of
               Some j \<Rightarrow>
                 (case stringify j of
                    Inl e \<Rightarrow> Inl e
                  | Inr r \<Rightarrow>
                      Inr (case r of Some s \<Rightarrow> BodyText s | None \<Rightarrow> BodyUndefined,
                           AList.update ''content-type'' (HContentType application_json) headers0))
             | None \<Rightarrow>
                 (case HTTPResponse.text responseObj of
                    Some t \<Rightarrow>
                      Inr (BodyText t,
                           AList.update ''content-type'' (HContentType text_plain) headers0)
                  | None \<Rightarrow>
                      (case html responseObj of
                         Some h \<Rightarrow>
                           Inr (BodyText h,
                                AList.update ''content-type'' (HContentType text_html) headers0)
                       | None \<Rightarrow>
                           (case stream responseObj of
                              Some s \<Rightarrow> Inr (BodyStream s, headers0)
                            | None \<Rightarrow> Inr (BodyText '''', headers0)))))
      in case chosen of
           Inl e \<Rightarrow> Inl e
         | Inr (response, headers1) \<Rightarrow>
             (case map_throwing encode_header (filter (\<lambda>kv. snd kv \<noteq> HUndefined) headers1) of
                Inl e \<Rightarrow> Inl e
              | Inr encodedHeaders \<Rightarrow>
                  Inr \<lparr>body = response, Response.status = status0,
                       Response.headers =
                         map_of (filter (\<lambda>kv. fst kv \<noteq> ''__proto__'') encodedHeaders)\<rparr>))"

section \<open>Application\<close>

type_synonym 'a RequestHandler = "HTTPRequest \<Rightarrow> string option list \<Rightarrow> error + 'a HTTPResponse"

text \<open>
  An instance of a subclass of \<open>Application\<close>: the registry its prototype carries
  (\<open>None\<close> when no route was ever registered), the methods a route can name, and the
  two handlers a subclass may override. A handler is a function of the request and
  the captured groups that returns a descriptor or throws; a rejected promise and a
  synchronous throw are the same \<open>Inl\<close>, as they are for the \<open>await\<close> inside \<open>try\<close>.
\<close>

record 'a Application =
  routes :: "Route list option"
  members :: "string \<rightharpoonup> 'a RequestHandler"
  handleNotFound :: "HTTPRequest \<Rightarrow> error + 'a HTTPResponse"
  handleInternalError :: "HTTPRequest \<Rightarrow> error + 'a HTTPResponse"

text \<open>The handlers of the base class.\<close>

definition Application_handleNotFound :: "HTTPRequest \<Rightarrow> error + 'a HTTPResponse" where
  "Application_handleNotFound request =
     Inr \<lparr>HTTPResponse.status = Some 404, HTTPResponse.headers = None,
          HTTPResponse.json = None, HTTPResponse.text = Some ''404 not found'',
          html = None, stream = None\<rparr>"

definition Application_handleInternalError :: "HTTPRequest \<Rightarrow> error + 'a HTTPResponse" where
  "Application_handleInternalError request =
     Inr \<lparr>HTTPResponse.status = Some 500, HTTPResponse.headers = None,
          HTTPResponse.json = None, HTTPResponse.text = Some ''500 internal error'',
          html = None, stream = None\<rparr>"

text \<open>
  What a call of \<open>handleRequest\<close> does: the handlers it invoked (the position of the
  route in the registry, the name of the handler, the captured groups it was given),
  what it wrote with \<open>console.log\<close>, and the response it returned or the exception
  it threw.
\<close>

record outcome =
  invoked :: "(nat \<times> string \<times> string option list) list"
  logged :: "error list"
  returned :: "error + Response"

definition encoded ::
    "('a \<Rightarrow> error + string option) \<Rightarrow> error + 'a HTTPResponse \<Rightarrow> error + Response" where
  "encoded stringify r = (case r of Inl e \<Rightarrow> Inl e | Inr responseObj \<Rightarrow> encodeResponse stringify responseObj)"

text \<open>The loop over the registry, from position \<open>i\<close> on.\<close>

fun dispatch ::
    "('a \<Rightarrow> error + string option) \<Rightarrow> 'a Application \<Rightarrow> HTTPRequest \<Rightarrow> nat \<Rightarrow> Route list
       \<Rightarrow> outcome" where
  "dispatch stringify this parsedRequest i [] =
     \<lparr>invoked = [], logged = [],
      returned = encoded stringify (handleNotFound this parsedRequest)\<rparr>"
| "dispatch stringify this parsedRequest i (route # rest) =
     (case Route_match route parsedRequest of
        None \<Rightarrow> dispatch stringify this parsedRequest (Suc i) rest
      | Some match \<Rightarrow>
          (case members this (handler route) of
             None \<Rightarrow> \<lparr>invoked = [], logged = [], returned = Inl TypeError\<rparr>
           | Some h \<Rightarrow>
               (case encoded stringify (h parsedRequest (tl match)) of
                  Inr response \<Rightarrow>
                    \<lparr>invoked = [(i, handler route, tl match)], logged = [],
                     returned = Inr response\<rparr>
                | Inl e \<Rightarrow>
                    \<lparr>invoked = [(i, handler route, tl match)], logged = [e],
                     returned = encoded stringify (handleInternalError this parsedRequest)\<rparr>)))"

definition handleRequest ::
    "('a \<Rightarrow> error + string option) \<Rightarrow> 'a Application \<Rightarrow> Request \<Rightarrow> outcome" where
  "handleRequest stringify this request =
     (case HTTPRequest_new request of
        Inl e \<Rightarrow> \<lparr>invoked = [], logged = [], returned = Inl e\<rparr>
      | Inr parsedRequest \<Rightarrow>
          (case routes this of
             None \<Rightarrow> \<lparr>invoked = [], logged = [], returned = Inl TypeError\<rparr>
           | Some rs \<Rightarrow> dispatch stringify this parsedRequest 0 rs))"


section \<open>GraphQL adapter\<close>

text \<open>
  What \<open>getGraphQLQuery\<close> returns when it is not \<open>null\<close>: the object built from the
  query parameters of a GET request, the parsed body of a POST request with content
  type \<open>application/json\<close> (any JSON value but \<open>null\<close>, cast without a check), or the
  object holding the body text of a POST request with content type
  \<open>application/graphql\<close>.
\<close>

datatype GraphQLRequest =
    FromParameters string "string option" "json option"
  | FromJson json
  | FromText string

text \<open>\<open>request.query.get(name) || undefined\<close>: an empty string counts as absent.\<close>

definition get_or_undefined :: "(string \<times> string) list \<Rightarrow> string \<Rightarrow> string option" where
  "get_or_undefined params name =
     (case URLSearchParams_get params name of
        None \<Rightarrow> None
      | Some v \<Rightarrow> if v = [] then None else Some v)"

definition getGraphQLQuery :: "HTTPRequest \<Rightarrow> error + GraphQLRequest option" where
  "getGraphQLQuery request =
     (if toLowerCase (method request) = ''get'' then
        (case URLSearchParams_get (query request) ''query'' of
           None \<Rightarrow> Inr None
         | Some q \<Rightarrow>
             (case get_or_undefined (query request) ''variables'' of
                None \<Rightarrow>
                  Inr (Some (FromParameters q
                               (get_or_undefined (query request) ''operationName'') None))
              | Some v \<Rightarrow>
                  (case JSON_parse v of
                     Inl e \<Rightarrow> Inr None
                   | Inr parsed \<Rightarrow>
                       Inr (Some (FromParameters q
                                    (get_or_undefined (query request) ''operationName'')
                                    (Some parsed))))))
      else if toLowerCase (method request) = ''post'' then
        (case Request.headers request ''content-type'' of
           None \<Rightarrow> Inr None
         | Some t \<Rightarrow>
             if t = ''application/json'' then
               (case Request.json request of
                  Inl e \<Rightarrow> Inl e
                | Inr j \<Rightarrow> Inr (if j = JNull then None else Some (FromJson j)))
             else if t = ''application/graphql'' then
               (case Request.text request of
                  Inl e \<Rightarrow> Inl e
                | Inr s \<Rightarrow> Inr (Some (FromText s)))
             else Inr None)
      else Inr None)"

definition bad_request :: "'a HTTPResponse" where
  "bad_request =
     \<lparr>HTTPResponse.status = Some 400, HTTPResponse.headers = None,
      HTTPResponse.json = None, HTTPResponse.text = Some ''400 bad request'',
      html = None, stream = None\<rparr>"

text \<open>
  \<open>handleGraphQLRequest\<close>. The executor \<open>graphql\<close> is the external library's; it is
  given the schema and the object \<open>getGraphQLQuery\<close> returned, of which the source
  passes on the properties \<open>query\<close>, \<open>variables\<close> and \<open>operationName\<close>, and it returns
  a result or throws.
\<close>

definition handleGraphQLRequest ::
    "('s \<Rightarrow> GraphQLRequest \<Rightarrow> error + 'a) \<Rightarrow> 's \<Rightarrow> HTTPRequest \<Rightarrow> error + 'a HTTPResponse" where
  "handleGraphQLRequest graphql schema request =
     (case getGraphQLQuery request of
        Inl e \<Rightarrow> Inl e
      | Inr None \<Rightarrow> Inr bad_request
      | Inr (Some graphQLRequest) \<Rightarrow>
          (case graphql schema graphQLRequest of
             Inl e \<Rightarrow> Inl e
           | Inr result \<Rightarrow>
               Inr \<lparr>HTTPResponse.status = None, HTTPResponse.headers = None,
                    HTTPResponse.json = Some result, HTTPResponse.text = None,
                    html = None, stream = None\<rparr>))"

section \<open>Example values\<close>

text \<open>
  A request with no cookie header and no body, before and after \<open>HTTPRequest\<close> wraps
  it; the registry a class gets from a list of \<open>@Application.get(pattern)\<close> decorators,
  each on the method named beside it; and an application whose method \<open>boom\<close> throws and
  whose other methods answer with their own name.
\<close>

definition example_Request :: "string \<Rightarrow> string \<Rightarrow> Request" where
  "example_Request m path =
     \<lparr>Request.method = m, url = \<lparr>pathname = path, searchParams = []\<rparr>,
      Request.headers = Map.empty, Request.json = Inl SyntaxError, Request.text = Inr ''''\<rparr>"

definition example_request :: "string \<Rightarrow> string \<Rightarrow> HTTPRequest" where
  "example_request m path =
     \<lparr>Request.method = m, url = \<lparr>pathname = path, searchParams = []\<rparr>,
      Request.headers = Map.empty, Request.json = Inl SyntaxError, Request.text = Inr '''',
      query = [], cookie = [('''', None)]\<rparr>"

definition registry_of :: "Route list compiled \<Rightarrow> Route list option" where
  "registry_of c = (case c of Compiled rs \<Rightarrow> Some rs | _ \<Rightarrow> None)"

definition example_registry :: "(string \<times> string) list \<Rightarrow> Route list option" where
  "example_registry decorated =
     foldl (\<lambda>registry (pat, property). registry_of (Application_get pat property registry))
       None decorated"

definition example_handler :: "string \<Rightarrow> unit RequestHandler" where
  "example_handler name request captures =
     (if name = ''boom'' then Inl (Thrown ''secret'')
      else Inr \<lparr>HTTPResponse.status = None, HTTPResponse.headers = None,
                HTTPResponse.json = None, HTTPResponse.text = Some name, html = None,
                stream = None\<rparr>)"

definition example_application :: "Route list option \<Rightarrow> unit Application" where
  "example_application registry =
     \<lparr>routes = registry, members = (\<lambda>name. Some (example_handler name)),
      handleNotFound = Application_handleNotFound,
      handleInternalError = Application_handleInternalError\<rparr>"

section \<open>Properties of the cookie jar\<close>






text \<open>
  Claim C9. The jar built from the empty string has exactly one entry: its key is the
  empty string and its value is \<open>undefined\<close>, because splitting the empty string at
  \<open>;\<close> gives one empty segment.
\<close>

theorem CookieJar_new_empty:
  "split '''' (CHR '';'') = [''''] \<and> CookieJar_new '''' = Inr [('''', None)]"
  by code_simp




text \<open>
  Claim C7. The claim is what the serialiser sets out to do, and on ordinary cookie
  names the code does it: the jar of \<open>b=2; a=x%3Dy\<close> serialises to \<open>b=2;a=x%3Dy\<close>, which
  parses back to the same jar. But the jar keeps its cookies as own properties of
  the object that also carries its methods. A cookie named \<open>toString\<close> replaces the
  method, so that \<open>jar.toString()\<close> throws; a cookie named \<open>hasOwnProperty\<close> replaces
  the method the loop of \<open>toString\<close> calls, which throws as well; and a cookie named
  \<open>__proto__\<close> is never stored, so that the jar of \<open>__proto__=x\<close> is empty, serialises to
  the empty string, and parses back to a jar with the empty key.
\<close>

theorem CookieJar_roundtrip_shadowed_names:
  "CookieJar_new ''toString=1'' = Inr [(''toString'', Some ''1'')]
   \<and> CookieJar_call_toString [(''toString'', Some ''1'')] = Inl TypeError
   \<and> CookieJar_new ''hasOwnProperty=1'' = Inr [(''hasOwnProperty'', Some ''1'')]
   \<and> CookieJar_call_toString [(''hasOwnProperty'', Some ''1'')] = Inl TypeError
   \<and> CookieJar_new ''__proto__=x'' = Inr []
   \<and> CookieJar_call_toString [] = Inr ''''
   \<and> CookieJar_new '''' = Inr [('''', None)]
   \<and> CookieJar_new ''b=2; a=x%3Dy'' = Inr [(''b'', Some ''2''), (''a'', Some ''x=y'')]
   \<and> CookieJar_call_toString [(''b'', Some ''2''), (''a'', Some ''x=y'')] = Inr ''b=2;a=x%3Dy''
   \<and> CookieJar_new ''b=2;a=x%3Dy'' = Inr [(''b'', Some ''2''), (''a'', Some ''x=y'')]"
  by code_simp

section \<open>Properties of routes\<close>

lemma toLowerCase_post:
  assumes "c1 \<in> {CHR ''p'', CHR ''P''}" "c2 \<in> {CHR ''o'', CHR ''O''}"
    "c3 \<in> {CHR ''s'', CHR ''S''}" "c4 \<in> {CHR ''t'', CHR ''T''}"
  shows "toLowerCase [c1, c2, c3, c4] = ''post''"
proof -
  have "map toLowerCase_char ''pPoOsStT'' = ''ppoosstt''" by code_simp
  then show ?thesis using assms by (auto simp: toLowerCase_def)
qed

text \<open>
  Claim C5. The comparison of HTTP methods in \<open>Route.match\<close> ignores letter case on
  both sides. A route constructed with the method \<open>POST\<close> in any letter case lets a
  request with method \<open>post\<close>, \<open>POST\<close> or \<open>PoSt\<close> pass the method check, so that the
  result is that of the pattern on the path; for a request with method \<open>GET\<close> the
  result is \<open>null\<close>.
\<close>

theorem Route_match_method_case_insensitive:
  assumes "c1 \<in> {CHR ''p'', CHR ''P''}" "c2 \<in> {CHR ''o'', CHR ''O''}"
    "c3 \<in> {CHR ''s'', CHR ''S''}" "c4 \<in> {CHR ''t'', CHR ''T''}"
  shows "(method request \<in> {''post'', ''POST'', ''PoSt''} \<longrightarrow>
            Route_match (Route_new [c1, c2, c3, c4] re h) request
              = exec re (pathname (url request)))
       \<and> (method request = ''GET'' \<longrightarrow>
            Route_match (Route_new [c1, c2, c3, c4] re h) request = None)"
proof -
  have stored: "Route.method (Route_new [c1, c2, c3, c4] re h) = ''post''"
    using toLowerCase_post [OF assms] by (simp add: Route_new_def)
  have pat: "pattern (Route_new [c1, c2, c3, c4] re h) = re"
    by (simp add: Route_new_def)
  have low: "toLowerCase ''post'' = ''post''" "toLowerCase ''POST'' = ''post''"
    "toLowerCase ''PoSt'' = ''post''" "toLowerCase ''GET'' = ''get''"
    by code_simp+
  show ?thesis
    unfolding Route_match_def stored pat using low by auto
qed

theorem Route_match_method_case_insensitive_witness:
  "Route_match (Route_new ''PosT'' \<lparr>source = Char (CHR ''/''), groups = 0\<rparr> ''create'')
     (example_request ''PoSt'' ''/'') = Some [Some ''/'']
   \<and> Route_match (Route_new ''PosT'' \<lparr>source = Char (CHR ''/''), groups = 0\<rparr> ''create'')
     (example_request ''GET'' ''/'') = None"
proof -
  have e: "exec \<lparr>source = Char (CHR ''/''), groups = 0\<rparr> ''/'' = Some [Some ''/'']"
    by code_simp
  show ?thesis
    using Route_match_method_case_insensitive
      [of "CHR ''P''" "CHR ''o''" "CHR ''s''" "CHR ''T''" "example_request ''PoSt'' ''/''"
          "\<lparr>source = Char (CHR ''/''), groups = 0\<rparr>" "''create''"]
      Route_match_method_case_insensitive
      [of "CHR ''P''" "CHR ''o''" "CHR ''s''" "CHR ''T''" "example_request ''GET'' ''/''"
          "\<lparr>source = Char (CHR ''/''), groups = 0\<rparr>" "''create''"]
      e
    by (simp add: example_request_def)
qed

text \<open>
  Claim C4. The registration functions anchor a pattern by writing \<open>^\<close> before it and
  \<open>$\<close> after it. The claim's own example behaves as it says: the route registered
  with \<open>/items/([0-9]+)\<close> matches the path \<open>/items/12\<close> and not \<open>/items/12/extra\<close>.
  But in a pattern with \<open>|\<close> at its top level the \<open>^\<close> belongs to the first
  alternative only and the \<open>$\<close> to the last: the route registered with \<open>/a|/b\<close> has
  the expression \<open>^/a|/b$\<close>, which matches the path \<open>/a/extra\<close> through its beginning
  \<open>/a\<close>.
\<close>

theorem anchored_alternation_matches_partial_path:
  "(case Application_get ''/a|/b'' ''show'' None of
      Compiled [route] \<Rightarrow> Route_match route (example_request ''GET'' ''/a/extra'')
    | _ \<Rightarrow> None) = Some [Some ''/a'']
   \<and> (case Application_get ''/items/([0-9]+)'' ''show'' None of
      Compiled [route] \<Rightarrow> Route_match route (example_request ''GET'' ''/items/12/extra'')
    | _ \<Rightarrow> Some []) = None
   \<and> (case Application_get ''/items/([0-9]+)'' ''show'' None of
      Compiled [route] \<Rightarrow> Route_match route (example_request ''GET'' ''/items/12'')
    | _ \<Rightarrow> None) = Some [Some ''/items/12'', Some ''12'']"
  by code_simp

section \<open>Properties of response encoding\<close>

lemma encode_header_Inr:
  "encode_header (k, v) = Inr x \<longleftrightarrow> (\<exists>s. header_toString v = Inr s \<and> x = (k, s))"
  by (auto simp: encode_header_def split: sum.splits)

lemma map_throwing_Inr_map_of:
  assumes "map_throwing encode_header hs = Inr enc"
  shows "map_of enc k = (case map_of hs k of
                           None \<Rightarrow> None
                         | Some v \<Rightarrow> (case header_toString v of Inl e \<Rightarrow> None | Inr s \<Rightarrow> Some s))
         \<and> (\<forall>v. map_of hs k = Some v \<longrightarrow> (\<exists>s. header_toString v = Inr s))"
  using assms
proof (induction hs arbitrary: enc)
  case Nil
  then show ?case by simp
next
  case (Cons kv hs)
  obtain k' v' where kv: "kv = (k', v')" by (cases kv)
  from Cons.prems kv have
    "\<exists>s' enc'. header_toString v' = Inr s' \<and> map_throwing encode_header hs = Inr enc'
       \<and> enc = (k', s') # enc'"
    by (auto simp: encode_header_Inr split: sum.splits)
  then obtain s' enc' where
    s': "header_toString v' = Inr s'" and
    rest: "map_throwing encode_header hs = Inr enc'" and
    enc: "enc = (k', s') # enc'"
    by blast
  show ?case using Cons.IH [OF rest] kv s' enc by auto
qed

lemma map_of_filter_defined:
  "map_of hs k = Some v \<Longrightarrow> v \<noteq> HUndefined \<Longrightarrow>
   map_of (filter (\<lambda>kv. snd kv \<noteq> HUndefined) hs) k = Some v"
  by (induction hs) (auto split: if_splits)

lemma map_of_update_filter:
  "v \<noteq> HUndefined \<Longrightarrow>
   map_of (filter (\<lambda>kv. snd kv \<noteq> HUndefined) (AList.update k v hs)) k = Some v"
  by (rule map_of_filter_defined) (simp_all add: update_conv')

lemma map_of_filter_other_key:
  "k \<noteq> p \<Longrightarrow> map_of (filter (\<lambda>kv. fst kv \<noteq> p) xs) k = map_of xs k"
  by (induction xs) auto

lemma encode_headers_content_type:
  assumes "map_throwing encode_header
             (filter (\<lambda>kv. snd kv \<noteq> HUndefined)
                (AList.update ''content-type'' (HContentType t) hs)) = Inr enc"
  shows "map_of (filter (\<lambda>kv. fst kv \<noteq> ''__proto__'') enc) ''content-type''
           = Some (ContentType_toString t)"
  using map_throwing_Inr_map_of [OF assms, of "''content-type''"]
  by (simp add: map_of_update_filter header_toString_def map_of_filter_other_key)

lemma encodeResponse_json:
  assumes "encodeResponse stringify responseObj = Inr response"
    and "HTTPResponse.json responseObj = Some j"
  shows "Response.headers response ''content-type'' = Some ''application/json''"
proof -
  define hs where "hs = (case HTTPResponse.headers responseObj of Some h \<Rightarrow> h | None \<Rightarrow> [])"
  from assms have
    "\<exists>enc. map_throwing encode_header
              (filter (\<lambda>kv. snd kv \<noteq> HUndefined)
                 (AList.update ''content-type'' (HContentType application_json) hs)) = Inr enc
       \<and> Response.headers response = map_of (filter (\<lambda>kv. fst kv \<noteq> ''__proto__'') enc)"
    by (auto simp: encodeResponse_def Let_def hs_def [symmetric] split: sum.splits)
  then show ?thesis
    by (auto dest!: encode_headers_content_type simp: ContentType_toString_def)
qed

lemma encodeResponse_text:
  assumes "encodeResponse stringify responseObj = Inr response"
    and "HTTPResponse.json responseObj = None" "HTTPResponse.text responseObj = Some t"
  shows "Response.headers response ''content-type'' = Some ''text/plain''"
proof -
  define hs where "hs = (case HTTPResponse.headers responseObj of Some h \<Rightarrow> h | None \<Rightarrow> [])"
  from assms have
    "\<exists>enc. map_throwing encode_header
              (filter (\<lambda>kv. snd kv \<noteq> HUndefined)
                 (AList.update ''content-type'' (HContentType text_plain) hs)) = Inr enc
       \<and> Response.headers response = map_of (filter (\<lambda>kv. fst kv \<noteq> ''__proto__'') enc)"
    by (auto simp: encodeResponse_def Let_def hs_def [symmetric] split: sum.splits)
  then show ?thesis
    by (auto dest!: encode_headers_content_type simp: ContentType_toString_def)
qed

lemma encodeResponse_html:
  assumes "encodeResponse stringify responseObj = Inr response"
    and "HTTPResponse.json responseObj = None" "HTTPResponse.text responseObj = None"
    and "html responseObj = Some h"
  shows "Response.headers response ''content-type'' = Some ''text/html''"
proof -
  define hs where "hs = (case HTTPResponse.headers responseObj of Some h \<Rightarrow> h | None \<Rightarrow> [])"
  from assms have
    "\<exists>enc. map_throwing encode_header
              (filter (\<lambda>kv. snd kv \<noteq> HUndefined)
                 (AList.update ''content-type'' (HContentType text_html) hs)) = Inr enc
       \<and> Response.headers response = map_of (filter (\<lambda>kv. fst kv \<noteq> ''__proto__'') enc)"
    by (auto simp: encodeResponse_def Let_def hs_def [symmetric] split: sum.splits)
  then show ?thesis
    by (auto dest!: encode_headers_content_type simp: ContentType_toString_def)
qed

text \<open>
  Claim C3, as the code has it. When the descriptor carries a \<open>json\<close>, \<open>text\<close> or
  \<open>html\<close> body, the content type on the transport response is the one the body
  variant implies, whatever content type the descriptor's own headers name: the
  default is assigned after the descriptor's headers are taken and replaces theirs.
\<close>

theorem encodeResponse_default_content_type:
  assumes "encodeResponse stringify responseObj = Inr response"
  shows "(HTTPResponse.json responseObj \<noteq> None \<longrightarrow>
            Response.headers response ''content-type'' = Some ''application/json'')
       \<and> (HTTPResponse.json responseObj = None \<and> HTTPResponse.text responseObj \<noteq> None \<longrightarrow>
            Response.headers response ''content-type'' = Some ''text/plain'')
       \<and> (HTTPResponse.json responseObj = None \<and> HTTPResponse.text responseObj = None
            \<and> html responseObj \<noteq> None \<longrightarrow>
            Response.headers response ''content-type'' = Some ''text/html'')"
  using encodeResponse_json [OF assms] encodeResponse_text [OF assms]
    encodeResponse_html [OF assms]
  by auto

theorem encodeResponse_default_content_type_witness:
  "encodeResponse (\<lambda>j :: unit. Inr (Some ''null''))
     \<lparr>HTTPResponse.status = None,
      HTTPResponse.headers = Some [(''content-type'', HContentType text_css)],
      HTTPResponse.json = None, HTTPResponse.text = None, html = Some ''<p>hi</p>'',
      stream = None\<rparr>
     = Inr \<lparr>body = BodyText ''<p>hi</p>'', Response.status = 200,
            Response.headers = [''content-type'' \<mapsto> ''text/html'']\<rparr>
   \<and> Response.headers
        \<lparr>body = BodyText ''<p>hi</p>'', Response.status = 200,
         Response.headers = [''content-type'' \<mapsto> ''text/html'']\<rparr> ''content-type''
       = Some ''text/html''"
proof -
  have e: "encodeResponse (\<lambda>j :: unit. Inr (Some ''null''))
     \<lparr>HTTPResponse.status = None,
      HTTPResponse.headers = Some [(''content-type'', HContentType text_css)],
      HTTPResponse.json = None, HTTPResponse.text = None, html = Some ''<p>hi</p>'',
      stream = None\<rparr>
     = Inr \<lparr>body = BodyText ''<p>hi</p>'', Response.status = 200,
            Response.headers = [''content-type'' \<mapsto> ''text/html'']\<rparr>"
    by (simp add: encodeResponse_def encode_header_def header_toString_def
        ContentType_toString_def)
  show ?thesis using encodeResponse_default_content_type [OF e] e by simp
qed

text \<open>A descriptor with a \<open>text\<close> body and the explicit content type \<open>text/html\<close>: the
  response carries \<open>text/plain\<close>.\<close>

theorem encodeResponse_explicit_content_type_counterexample:
  "encodeResponse (\<lambda>j :: unit. Inr (Some ''null''))
     \<lparr>HTTPResponse.status = None,
      HTTPResponse.headers = Some [(''content-type'', HContentType text_html)],
      HTTPResponse.json = None, HTTPResponse.text = Some ''hi'', html = None,
      stream = None\<rparr>
     = Inr \<lparr>body = BodyText ''hi'', Response.status = 200,
            Response.headers = [''content-type'' \<mapsto> ''text/plain'']\<rparr>"
  by (simp add: encodeResponse_def encode_header_def header_toString_def
      ContentType_toString_def)

section \<open>Properties of dispatch\<close>

lemma dispatch_first_match:
  assumes "\<forall>r \<in> set pre. Route_match r req = None"
    and "Route_match route req = Some m"
    and "members this (handler route) = Some h"
  shows "dispatch stringify this req i (pre @ route # post) =
     (case encoded stringify (h req (tl m)) of
        Inr response \<Rightarrow>
          \<lparr>invoked = [(i + length pre, handler route, tl m)], logged = [],
           returned = Inr response\<rparr>
      | Inl e \<Rightarrow>
          \<lparr>invoked = [(i + length pre, handler route, tl m)], logged = [e],
           returned = encoded stringify (handleInternalError this req)\<rparr>)"
  using assms(1)
proof (induction pre arbitrary: i)
  case Nil
  then show ?case using assms(2,3) by (simp split: sum.splits)
next
  case (Cons r pre)
  then show ?case by (simp split: sum.splits)
qed

lemma encoded_internal_error:
  "encoded stringify (Application_handleInternalError req) =
     Inr \<lparr>body = BodyText ''500 internal error'', Response.status = 500,
          Response.headers = [''content-type'' \<mapsto> ''text/plain'']\<rparr>"
  by (simp add: encoded_def Application_handleInternalError_def encodeResponse_def
      encode_header_def header_toString_def ContentType_toString_def)

lemma find_split:
  assumes "find P xs = Some x"
  shows "\<exists>pre post. xs = pre @ x # post \<and> (\<forall>y \<in> set pre. \<not> P y)"
proof -
  from assms obtain i where i: "i < length xs" "x = xs ! i" "\<forall>j<i. \<not> P (xs ! j)"
    by (auto simp: find_Some_iff)
  have "xs = take i xs @ x # drop (Suc i) xs" using i by (simp add: id_take_nth_drop)
  moreover have "\<forall>y \<in> set (take i xs). \<not> P y"
    using i by (auto simp: in_set_conv_nth)
  ultimately show ?thesis by blast
qed

text \<open>
  Claim C2. When the first route that matches the request names a handler and the
  call of that handler throws, \<open>handleRequest\<close> logs the exception and returns (it
  does not throw the exception again) the encoding of what \<open>handleInternalError\<close>
  returns. For an application that keeps the base class's \<open>handleInternalError\<close> this
  is the response with status 500, content type \<open>text/plain\<close> and body
  \<open>500 internal error\<close>, in which nothing of the exception appears.
\<close>

theorem handleRequest_handler_throws:
  assumes "HTTPRequest_new request = Inr parsedRequest"
    and "routes this = Some rs"
    and "find (\<lambda>r. Route_match r parsedRequest \<noteq> None) rs = Some route"
    and "Route_match route parsedRequest = Some m"
    and "members this (handler route) = Some h"
    and "h parsedRequest (tl m) = Inl e"
  shows "logged (handleRequest stringify this request) = [e]
       \<and> returned (handleRequest stringify this request)
           = encoded stringify (handleInternalError this parsedRequest)
       \<and> (handleInternalError this = Application_handleInternalError \<longrightarrow>
            returned (handleRequest stringify this request) =
              Inr \<lparr>body = BodyText ''500 internal error'', Response.status = 500,
                   Response.headers = [''content-type'' \<mapsto> ''text/plain'']\<rparr>)"
proof -
  from find_split [OF assms(3)] obtain pre post where
    rs: "rs = pre @ route # post" and
    pre: "\<forall>r \<in> set pre. Route_match r parsedRequest = None"
    by auto
  have "handleRequest stringify this request
          = dispatch stringify this parsedRequest 0 (pre @ route # post)"
    using assms(1,2) rs by (simp add: handleRequest_def)
  also have "\<dots> = \<lparr>invoked = [(0 + length pre, handler route, tl m)], logged = [e],
                    returned = encoded stringify (handleInternalError this parsedRequest)\<rparr>"
    using dispatch_first_match [OF pre assms(4,5)] assms(6) by (simp add: encoded_def)
  finally show ?thesis
    by (simp add: encoded_internal_error)
qed

text \<open>
  Claim C1, as the code has it. Let the routes at positions \<open>i < j\<close> of the registry
  both match the request, and let no route before position \<open>i\<close> match it. Then
  \<open>handleRequest\<close> invokes one handler: the one the route at \<open>i\<close> names, with the groups
  that route captured; the route at \<open>j\<close> is not dispatched.
\<close>

theorem handleRequest_first_match:
  assumes "HTTPRequest_new request = Inr parsedRequest"
    and "routes this = Some rs"
    and "i < j" and "j < length rs"
    and "Route_match (rs ! i) parsedRequest = Some m"
    and "Route_match (rs ! j) parsedRequest \<noteq> None"
    and "\<forall>k<i. Route_match (rs ! k) parsedRequest = None"
    and "members this (handler (rs ! i)) = Some h"
  shows "invoked (handleRequest stringify this request) = [(i, handler (rs ! i), tl m)]
       \<and> j \<notin> fst ` set (invoked (handleRequest stringify this request))"
proof -
  have i: "i < length rs" using assms(3,4) by simp
  have rs: "rs = take i rs @ rs ! i # drop (Suc i) rs" using i by (simp add: id_take_nth_drop)
  have pre: "\<forall>r \<in> set (take i rs). Route_match r parsedRequest = None"
    using assms(7) i by (auto simp: in_set_conv_nth)
  have "handleRequest stringify this request
          = dispatch stringify this parsedRequest 0 (take i rs @ rs ! i # drop (Suc i) rs)"
    using assms(1,2) rs by (simp add: handleRequest_def)
  then have "invoked (handleRequest stringify this request) = [(i, handler (rs ! i), tl m)]"
    using dispatch_first_match [OF pre assms(5,8)] i
    by (simp split: sum.splits)
  then show ?thesis using assms(3) by simp
qed

lemma CookieJar_new_Nil: "CookieJar_new [] = Inr [([], None)]"
  by code_simp

lemma HTTPRequest_new_example:
  "HTTPRequest_new (example_Request m path) = Inr (example_request m path)"
  by (simp add: HTTPRequest_new_def example_Request_def example_request_def
      CookieJar_new_Nil Request.extend_def)

theorem handleRequest_handler_throws_witness:
  "returned (handleRequest (\<lambda>j :: unit. Inr None)
       (example_application (example_registry [(''/boom'', ''boom'')]))
       (example_Request ''GET'' ''/boom''))
     = Inr \<lparr>body = BodyText ''500 internal error'', Response.status = 500,
            Response.headers = [''content-type'' \<mapsto> ''text/plain'']\<rparr>
   \<and> logged (handleRequest (\<lambda>j :: unit. Inr None)
       (example_application (example_registry [(''/boom'', ''boom'')]))
       (example_Request ''GET'' ''/boom''))
     = [Thrown ''secret'']"
proof -
  define route where "route = hd (the (example_registry [(''/boom'', ''boom'')]))"
  have reg: "example_registry [(''/boom'', ''boom'')] = Some [route]"
    unfolding route_def by code_simp
  have m: "Route_match route (example_request ''GET'' ''/boom'') = Some [Some ''/boom'']"
    unfolding route_def by code_simp
  have name: "handler route = ''boom''"
    unfolding route_def by code_simp
  show ?thesis
    using handleRequest_handler_throws
      [of "example_Request ''GET'' ''/boom''" "example_request ''GET'' ''/boom''"
          "example_application (example_registry [(''/boom'', ''boom'')])" "[route]" route
          "[Some ''/boom'']" "example_handler ''boom''" "Thrown ''secret''"
          "\<lambda>j :: unit. Inr None"]
    by (simp add: HTTPRequest_new_example reg m name example_application_def
        example_handler_def encoded_internal_error)
qed

theorem handleRequest_first_match_witness:
  "invoked (handleRequest (\<lambda>j :: unit. Inr None)
       (example_application
          (example_registry [(''/x'', ''first''), (''/(a)'', ''second''), (''/[a-z]'', ''third'')]))
       (example_Request ''GET'' ''/a''))
     = [(1, ''second'', [Some ''a''])]"
proof -
  define rs where
    "rs = the (example_registry [(''/x'', ''first''), (''/(a)'', ''second''), (''/[a-z]'', ''third'')])"
  have reg: "example_registry [(''/x'', ''first''), (''/(a)'', ''second''), (''/[a-z]'', ''third'')]
               = Some rs"
    unfolding rs_def by code_simp
  have len: "length rs = 3" unfolding rs_def by code_simp
  have m0: "Route_match (rs ! 0) (example_request ''GET'' ''/a'') = None"
    unfolding rs_def by code_simp
  have m1: "Route_match (rs ! 1) (example_request ''GET'' ''/a'') = Some [Some ''/a'', Some ''a'']"
    unfolding rs_def by code_simp
  have m2: "Route_match (rs ! 2) (example_request ''GET'' ''/a'') = Some [Some ''/a'']"
    unfolding rs_def by code_simp
  have name: "handler (rs ! 1) = ''second''"
    unfolding rs_def by code_simp
  define app where "app = example_application
      (example_registry [(''/x'', ''first''), (''/(a)'', ''second''), (''/[a-z]'', ''third'')])"
  have a1: "HTTPRequest_new (example_Request ''GET'' ''/a'') = Inr (example_request ''GET'' ''/a'')"
    by (rule HTTPRequest_new_example)
  have a2: "routes app = Some rs" by (simp add: app_def reg example_application_def)
  have a3: "(1::nat) < 2" by simp
  have a4: "2 < length rs" by (simp add: len)
  have a6: "Route_match (rs ! 2) (example_request ''GET'' ''/a'') \<noteq> None" using m2 by simp
  have a7: "\<forall>k<1. Route_match (rs ! k) (example_request ''GET'' ''/a'') = None"
    using m0 by simp
  have a8: "members app (handler (rs ! 1)) = Some (example_handler ''second'')"
    using name by (simp add: app_def example_application_def)
  from handleRequest_first_match [OF a1 a2 a3 a4 m1 a6 a7 a8, of "\<lambda>j :: unit. Inr None"] name
  show ?thesis by (simp add: app_def)
qed

text \<open>
  Three routes that all match \<open>GET /a\<close>: the second is registered before the third
  and both match, yet the handler invoked is the first route's, not the second's.
\<close>

theorem handleRequest_earlier_route_counterexample:
  "map handler (the (example_registry
       [(''/(.*)'', ''first''), (''/a'', ''second''), (''/[a-z]'', ''third'')]))
     = [''first'', ''second'', ''third'']
   \<and> map (\<lambda>r. Route_match r (example_request ''GET'' ''/a''))
       (the (example_registry [(''/(.*)'', ''first''), (''/a'', ''second''), (''/[a-z]'', ''third'')]))
     = [Some [Some ''/a'', Some ''a''], Some [Some ''/a''], Some [Some ''/a'']]
   \<and> invoked (handleRequest (\<lambda>j :: unit. Inr None)
       (example_application
          (example_registry [(''/(.*)'', ''first''), (''/a'', ''second''), (''/[a-z]'', ''third'')]))
       (example_Request ''GET'' ''/a''))
     = [(0, ''first'', [Some ''a''])]"
  by code_simp

section \<open>Properties of the GraphQL adapter\<close>

lemma handleGraphQLRequest_bad_request_iff:
  "handleGraphQLRequest graphql schema request = Inr bad_request
     \<longleftrightarrow> getGraphQLQuery request = Inr None"
  by (auto simp: handleGraphQLRequest_def bad_request_def split: sum.splits option.splits)

text \<open>
  Claim C6, as the code has it. For a GET request, \<open>getGraphQLQuery\<close> returns \<open>null\<close>
  when the \<open>query\<close> parameter is absent, and when the \<open>variables\<close> parameter is not
  empty and is not parseable JSON (an empty \<open>variables\<close> parameter counts as absent
  and is not parsed). \<open>handleGraphQLRequest\<close> returns the 400 response with the
  plain-text body exactly when \<open>getGraphQLQuery\<close> returns \<open>null\<close>; when it returns an
  object, the executor is called, and its result is wrapped as a JSON response.
\<close>

theorem getGraphQLQuery_null_and_bad_request:
  "(toLowerCase (method request) = ''get''
      \<and> URLSearchParams_get (query request) ''query'' = None
      \<longrightarrow> getGraphQLQuery request = Inr None)
   \<and> (toLowerCase (method request) = ''get''
      \<and> URLSearchParams_get (query request) ''variables'' = Some v \<and> v \<noteq> ''''
      \<and> JSON_parse v = Inl e
      \<longrightarrow> getGraphQLQuery request = Inr None)
   \<and> (handleGraphQLRequest graphql schema request = Inr bad_request
      \<longleftrightarrow> getGraphQLQuery request = Inr None)
   \<and> HTTPResponse.status (bad_request :: 'a HTTPResponse) = Some 400
   \<and> HTTPResponse.text (bad_request :: 'a HTTPResponse) = Some ''400 bad request''
   \<and> (getGraphQLQuery request = Inr (Some graphQLRequest) \<and> graphql schema graphQLRequest = Inr result
      \<longrightarrow> handleGraphQLRequest graphql schema request
            = Inr \<lparr>HTTPResponse.status = None, HTTPResponse.headers = None,
                   HTTPResponse.json = Some (result :: 'a), HTTPResponse.text = None,
                   html = None, stream = None\<rparr>)"
proof (intro conjI impI)
  assume "toLowerCase (method request) = ''get''
      \<and> URLSearchParams_get (query request) ''query'' = None"
  then show "getGraphQLQuery request = Inr None"
    by (simp add: getGraphQLQuery_def)
next
  assume a: "toLowerCase (method request) = ''get''
      \<and> URLSearchParams_get (query request) ''variables'' = Some v \<and> v \<noteq> ''''
      \<and> JSON_parse v = Inl e"
  then have "get_or_undefined (query request) ''variables'' = Some v"
    by (simp add: get_or_undefined_def)
  with a show "getGraphQLQuery request = Inr None"
    by (simp add: getGraphQLQuery_def split: option.splits)
next
  show "handleGraphQLRequest graphql schema request = Inr bad_request
      \<longleftrightarrow> getGraphQLQuery request = Inr None"
    by (rule handleGraphQLRequest_bad_request_iff)
next
  show "HTTPResponse.status (bad_request :: 'a HTTPResponse) = Some 400"
    by (simp add: bad_request_def)
next
  show "HTTPResponse.text (bad_request :: 'a HTTPResponse) = Some ''400 bad request''"
    by (simp add: bad_request_def)
next
  assume "getGraphQLQuery request = Inr (Some graphQLRequest)
      \<and> graphql schema graphQLRequest = Inr result"
  then show "handleGraphQLRequest graphql schema request
            = Inr \<lparr>HTTPResponse.status = None, HTTPResponse.headers = None,
                   HTTPResponse.json = Some result, HTTPResponse.text = None,
                   html = None, stream = None\<rparr>"
    by (simp add: handleGraphQLRequest_def)
qed

theorem getGraphQLQuery_null_and_bad_request_witness:
  "getGraphQLQuery (example_request ''GET'' ''/graphql''\<lparr>query := [(''operationName'', ''Q'')]\<rparr>)
     = Inr None
   \<and> getGraphQLQuery
       (example_request ''GET'' ''/graphql''
          \<lparr>query := [(''query'', ''{ hello }''), (''variables'', ''not-json'')]\<rparr>)
     = Inr None
   \<and> handleGraphQLRequest (\<lambda>(schema :: unit) r. Inr ()) ()
       (example_request ''GET'' ''/graphql''
          \<lparr>query := [(''query'', ''{ hello }''), (''variables'', ''not-json'')]\<rparr>)
     = Inr bad_request
   \<and> handleGraphQLRequest (\<lambda>(schema :: unit) r. Inr ()) ()
       (example_request ''GET'' ''/graphql''\<lparr>query := [(''query'', ''{ hello }'')]\<rparr>)
     = Inr \<lparr>HTTPResponse.status = None, HTTPResponse.headers = None,
            HTTPResponse.json = Some (), HTTPResponse.text = None,
            html = None, stream = None\<rparr>"
proof -
  have low: "toLowerCase ''GET'' = ''get''" by code_simp
  have bad: "JSON_parse ''not-json'' = Inl SyntaxError" by code_simp
  have q: "getGraphQLQuery
       (example_request ''GET'' ''/graphql''\<lparr>query := [(''query'', ''{ hello }'')]\<rparr>)
     = Inr (Some (FromParameters ''{ hello }'' None None))"
    by (simp add: getGraphQLQuery_def example_request_def low URLSearchParams_get_def
        get_or_undefined_def)
  show ?thesis
    using getGraphQLQuery_null_and_bad_request
      [of "example_request ''GET'' ''/graphql''\<lparr>query := [(''operationName'', ''Q'')]\<rparr>"
          "''x''" SyntaxError "\<lambda>(schema :: unit) r. Inr ()" "()"
          "FromParameters ''{ hello }'' None None" "()"]
      getGraphQLQuery_null_and_bad_request
      [of "example_request ''GET'' ''/graphql''
             \<lparr>query := [(''query'', ''{ hello }''), (''variables'', ''not-json'')]\<rparr>"
          "''not-json''" SyntaxError "\<lambda>(schema :: unit) r. Inr ()" "()"
          "FromParameters ''{ hello }'' None None" "()"]
      getGraphQLQuery_null_and_bad_request
      [of "example_request ''GET'' ''/graphql''\<lparr>query := [(''query'', ''{ hello }'')]\<rparr>"
          "''x''" SyntaxError "\<lambda>(schema :: unit) r. Inr ()" "()"
          "FromParameters ''{ hello }'' None None" "()"]
      q
    by (simp add: example_request_def low bad URLSearchParams_get_def)
qed

text \<open>
  A GET request with a query and an empty \<open>variables\<close> parameter: the empty string is
  not parseable JSON, yet the result is a query object, not \<open>null\<close>.
\<close>

theorem getGraphQLQuery_empty_variables_counterexample:
  "JSON_parse '''' = Inl SyntaxError
   \<and> getGraphQLQuery
       (example_request ''GET'' ''/graphql''
          \<lparr>query := [(''query'', ''{ hello }''), (''variables'', '''')]\<rparr>)
     = Inr (Some (FromParameters ''{ hello }'' None None))"
proof -
  have low: "toLowerCase ''GET'' = ''get''" by code_simp
  have bad: "JSON_parse '''' = Inl SyntaxError" by code_simp
  show ?thesis
    by (simp add: bad getGraphQLQuery_def example_request_def low URLSearchParams_get_def
        get_or_undefined_def)
qed

section \<open>Properties of content-type inference\<close>

lemma lastIndexOf_range: "-1 \<le> lastIndexOf s c \<and> lastIndexOf s c < int (length s)"
  by (induction s) (auto simp: Let_def)

lemma lastIndexOf_absent: "c \<notin> set s \<Longrightarrow> lastIndexOf s c = -1"
  by (induction s) (auto simp: Let_def)

lemma lastIndexOf_append_last:
  "c \<notin> set ext \<Longrightarrow> lastIndexOf (base @ c # ext) c = int (length base)"
proof (induction base)
  case Nil
  then show ?case by (simp add: lastIndexOf_absent)
next
  case (Cons b base)
  then show ?case by (simp add: Let_def)
qed

lemma inferContentType_extension:
  assumes "CHR ''.'' \<notin> set ext"
  shows "inferContentType (base @ ''.'' @ ext) =
           (case map_of contentTypeMap ext of
              Some t \<Rightarrow> t
            | None \<Rightarrow> application_octet_stream)"
proof -
  have dot: "lastIndexOf (base @ CHR ''.'' # ext) (CHR ''.'') = int (length base)"
    using assms by (rule lastIndexOf_append_last)
  have suf: "substr (base @ CHR ''.'' # ext) (int (length base) + 1) = ext"
    by (simp add: substr_def nat_add_distrib)
  have own: "hasOwnProperty contentTypeMap ext \<longleftrightarrow> map_of contentTypeMap ext \<noteq> None"
    by (simp add: hasOwnProperty_def map_of_eq_None_iff)
  show ?thesis
    by (cases "map_of contentTypeMap ext") (simp_all add: inferContentType_def dot suf own)
qed

text \<open>
  Claim C10. A file name whose extension (the text after its last dot) is \<open>txt\<close> is
  given the type \<open>text/html\<close>, not \<open>text/plain\<close>; an extension that is not one of the five
  keys of the table, the name of an inherited property such as \<open>toString\<close> included,
  is given \<open>application/octet-stream\<close>.
\<close>

theorem inferContentType_txt_and_unknown:
  assumes "CHR ''.'' \<notin> set ext"
  shows "(ext = ''txt'' \<longrightarrow> inferContentType (base @ ''.'' @ ext) = text_html
            \<and> inferContentType (base @ ''.'' @ ext) \<noteq> text_plain)
       \<and> (ext \<notin> {''json'', ''js'', ''html'', ''css'', ''txt''} \<longrightarrow>
            inferContentType (base @ ''.'' @ ext) = application_octet_stream)
       \<and> inferContentType (base @ ''.'' @ ''toString'') = application_octet_stream"
proof -
  have a: "inferContentType (base @ ''.'' @ ''txt'') = text_html"
    by (subst inferContentType_extension) (simp_all add: contentTypeMap_def)
  have b: "inferContentType (base @ ''.'' @ ext) = application_octet_stream"
    if "ext \<notin> {''json'', ''js'', ''html'', ''css'', ''txt''}"
    using that assms by (subst inferContentType_extension) (simp_all add: contentTypeMap_def)
  have c: "inferContentType (base @ ''.'' @ ''toString'') = application_octet_stream"
    by (subst inferContentType_extension) (simp_all add: contentTypeMap_def)
  show ?thesis
  proof (intro conjI impI)
    assume "ext = ''txt''"
    then show "inferContentType (base @ ''.'' @ ext) = text_html" using a by blast
    then show "inferContentType (base @ ''.'' @ ext) \<noteq> text_plain" by simp
  next
    assume "ext \<notin> {''json'', ''js'', ''html'', ''css'', ''txt''}"
    then show "inferContentType (base @ ''.'' @ ext) = application_octet_stream" by (rule b)
  next
    show "inferContentType (base @ ''.'' @ ''toString'') = application_octet_stream" by (rule c)
  qed
qed

theorem inferContentType_txt_and_unknown_witness:
  "inferContentType ''notes.txt'' = text_html
   \<and> inferContentType ''archive.tar.gz'' = application_octet_stream
   \<and> inferContentType ''a.toString'' = application_octet_stream"
  using inferContentType_txt_and_unknown [of "''txt''" "''notes''"]
        inferContentType_txt_and_unknown [of "''gz''" "''archive.tar''"]
        inferContentType_txt_and_unknown [of "''gz''" "''a''"]
  by simp

end
